theory Spec2Isabelle
  imports Complex_Main
begin

section \<open>Assessment and adjustment engines of ESGLend\<close>

text \<open>
  A shallow embedding of \<^verbatim>\<open>backend/app/services/pricing_engine.py\<close>,
  \<^verbatim>\<open>risk_scoring_engine.py\<close> and \<^verbatim>\<open>sfdr_compliance_engine.py\<close>.

  Conventions of the embedding:
  \<^item> a Python \<^verbatim>\<open>float\<close> is a \<^typ>\<open>real\<close>: comparisons, sums and quotients are exact, and a
    float division by zero is the error value \<open>ZeroDivisionError\<close>. The ESG performance
    score is given a second time in double precision, with every operation rounded, and
    what is proved of the value of that score is proved there;
  \<^item> a nullable column is an \<open>option\<close>; Python truthiness of such a value is \<open>truthy\<close>;
  \<^item> a \<^verbatim>\<open>datetime\<close> is a number of microseconds, and the clock is read once per call
    (the parameter \<open>now\<close>);
  \<^item> the database session is a record of tables, each a list of rows in insertion order;
    a function that writes returns the new database next to its result;
  \<^item> a raised exception is \<open>Inl\<close> of an \<open>error\<close>.
\<close>

subsection \<open>Python primitives\<close>

type_synonym datetime = int

datatype error =
    LoanNotFound int
  | ZeroDivisionError
  | KeyError string

definition truthy :: "real option \<Rightarrow> bool" where
  "truthy v = (case v of None \<Rightarrow> False | Some x \<Rightarrow> x \<noteq> 0)"

definition py_or :: "real option \<Rightarrow> real \<Rightarrow> real" where
  "py_or v d = (case v of None \<Rightarrow> d | Some x \<Rightarrow> if x = 0 then d else x)"

definition py_div :: "real \<Rightarrow> real \<Rightarrow> error + real" where
  "py_div a b = (if b = 0 then Inl ZeroDivisionError else Inr (a / b))"

definition round_half_even :: "real \<Rightarrow> int" where
  "round_half_even x =
     (let f = \<lfloor>x\<rfloor>; d = x - of_int f
      in if d < 1 / 2 then f
         else if 1 / 2 < d then f + 1
         else if even f then f else f + 1)"

definition py_round :: "real \<Rightarrow> nat \<Rightarrow> real" where
  "py_round x n = of_int (round_half_even (x * 10 ^ n)) / 10 ^ n"

definition py_int :: "real \<Rightarrow> int" where
  "py_int x = (if 0 \<le> x then \<lfloor>x\<rfloor> else \<lceil>x\<rceil>)"

definition lower_char :: "char \<Rightarrow> char" where
  "lower_char c =
     (let n = (of_char c :: nat) in if 65 \<le> n \<and> n \<le> 90 then char_of (n + 32) else c)"

definition lower :: "string \<Rightarrow> string" where
  "lower s = map lower_char s"

definition days_us :: "int \<Rightarrow> int" where
  "days_us d = d * 86400000000"


subsection \<open>Rows of \<^verbatim>\<open>models.py\<close>\<close>

record Loan =
  loan_id :: int
  loan_number :: string
  amount :: real
  currency :: "string option"
  interest_rate :: "real option"
  base_margin :: "real option"
  current_margin :: "real option"
  maturity_date :: "datetime option"
  loan_status :: "string option"
  sustainability_linked :: "bool option"
  esg_performance_score :: "real option"
  pricing_tier :: "string option"
  margin_adjustment :: "real option"
  last_pricing_update :: "datetime option"
  risk_score :: "real option"
  risk_category :: "string option"

record ESGKpi =
  kpi_loan_id :: "int option"
  kpi_name :: string
  kpi_category :: "string option"
  target_value :: "real option"
  current_value :: "real option"
  baseline_value :: "real option"

record Covenant =
  cov_loan_id :: "int option"
  covenant_type :: string
  threshold :: "real option"
  cov_current_value :: "real option"
  cov_status :: "string option"

record Verification =
  ver_loan_id :: "int option"
  verification_date :: datetime
  ver_status :: "string option"

record PricingHistory =
  ph_loan_id :: int
  effective_date :: datetime
  ph_base_rate :: real
  ph_margin :: real
  ph_total_rate :: real
  ph_esg_performance_score :: real
  adjustment_reason :: string
  adjustment_amount :: real
  created_by :: "int option"

record RiskAssessment =
  ra_loan_id :: "int option"
  assessment_date :: datetime
  ra_risk_score :: real
  ra_risk_category :: string
  covenant_breach_probability :: real
  esg_risk_score :: real
  financial_risk_score :: real
  predicted_breach_date :: "datetime option"
  confidence_level :: real

record database =
  loans :: "Loan list"
  esg_kpis :: "ESGKpi list"
  covenants :: "Covenant list"
  verifications :: "Verification list"
  pricing_history :: "PricingHistory list"
  risk_assessments :: "RiskAssessment list"

text \<open>\<^verbatim>\<open>db.query(Loan).filter(Loan.id == loan_id).first()\<close> and the other queries.\<close>

definition query_loan :: "database \<Rightarrow> int \<Rightarrow> Loan option" where
  "query_loan db lid = find (\<lambda>l. loan_id l = lid) (loans db)"

definition query_kpis :: "database \<Rightarrow> int \<Rightarrow> ESGKpi list" where
  "query_kpis db lid = filter (\<lambda>k. kpi_loan_id k = Some lid) (esg_kpis db)"

definition query_covenants :: "database \<Rightarrow> int \<Rightarrow> Covenant list" where
  "query_covenants db lid =
     filter (\<lambda>c. cov_loan_id c = Some lid \<and> cov_status c \<noteq> None \<and> cov_status c \<noteq> Some ''terminated'')
       (covenants db)"

subsection \<open>Risk categories: \<^verbatim>\<open>RiskScoringEngine.categorize_risk\<close>\<close>

record risk_band =
  band_min :: real
  band_max :: real
  color :: string

definition risk_categories :: "(string \<times> risk_band) list" where
  "risk_categories =
     [(''low'', \<lparr>band_min = 0, band_max = 25, color = ''green''\<rparr>),
      (''moderate'', \<lparr>band_min = 25, band_max = 50, color = ''yellow''\<rparr>),
      (''elevated'', \<lparr>band_min = 50, band_max = 75, color = ''orange''\<rparr>),
      (''high'', \<lparr>band_min = 75, band_max = 100, color = ''red''\<rparr>)]"

fun first_band :: "(string \<times> risk_band) list \<Rightarrow> real \<Rightarrow> string option" where
  "first_band [] s = None"
| "first_band ((category, thresholds) # rest) s =
     (if band_min thresholds \<le> s \<and> s < band_max thresholds then Some category
      else first_band rest s)"

definition categorize_risk :: "real \<Rightarrow> string" where
  "categorize_risk s =
     (case first_band risk_categories s of
        Some category \<Rightarrow> category
      | None \<Rightarrow> if s \<ge> 75 then ''high'' else ''low'')"

subsection \<open>Pricing tiers: \<^verbatim>\<open>LoanPricingEngine.determine_pricing_tier\<close>\<close>

record tier_config =
  tier_threshold :: real
  adjustment :: real

definition pricing_tiers :: "(string \<times> tier_config) list" where
  "pricing_tiers =
     [(''excellent'', \<lparr>tier_threshold = 90, adjustment = - 0.50\<rparr>),
      (''good'', \<lparr>tier_threshold = 75, adjustment = - 0.25\<rparr>),
      (''fair'', \<lparr>tier_threshold = 60, adjustment = 0\<rparr>),
      (''poor'', \<lparr>tier_threshold = 40, adjustment = 0.25\<rparr>),
      (''critical'', \<lparr>tier_threshold = 0, adjustment = 0.50\<rparr>)]"

fun first_tier :: "(string \<times> tier_config) list \<Rightarrow> real \<Rightarrow> string option" where
  "first_tier [] s = None"
| "first_tier ((tier, config) # rest) s =
     (if s \<ge> tier_threshold config then Some tier else first_tier rest s)"

definition determine_pricing_tier :: "real \<Rightarrow> string" where
  "determine_pricing_tier esg_score =
     (case first_tier pricing_tiers esg_score of
        Some tier \<Rightarrow> tier
      | None \<Rightarrow> ''critical'')"

definition calculate_margin_adjustment :: "real \<Rightarrow> error + real" where
  "calculate_margin_adjustment esg_score =
     (let tier = determine_pricing_tier esg_score
      in case map_of pricing_tiers tier of
           None \<Rightarrow> Inl (KeyError tier)
         | Some config \<Rightarrow> Inr (adjustment config))"

subsection \<open>ESG performance score: \<^verbatim>\<open>LoanPricingEngine.calculate_esg_performance_score\<close>\<close>

text \<open>
  The dictionary \<^verbatim>\<open>category_scores\<close> has the three fixed keys of its literal; they are the
  type \<open>esg_category\<close>, \<open>category_key\<close> is the membership test \<^verbatim>\<open>category in category_scores\<close>,
  and the dictionary is a function from keys to lists.
\<close>

datatype esg_category = Environmental | Social | Governance

definition category_key :: "string \<Rightarrow> esg_category option" where
  "category_key s =
     (if s = ''environmental'' then Some Environmental
      else if s = ''social'' then Some Social
      else if s = ''governance'' then Some Governance
      else None)"

text \<open>
  Lines 39 to 45: the achievement of one KPI, \<open>None\<close> when the loop body appends nothing.
  The division is reached only with \<open>target_progress > 0\<close>.
\<close>

definition kpi_achievement :: "ESGKpi \<Rightarrow> real option" where
  "kpi_achievement kpi =
     (if truthy (target_value kpi) \<and> truthy (current_value kpi) \<and> truthy (baseline_value kpi) then
        (let target_progress = \<bar>the (target_value kpi) - the (baseline_value kpi)\<bar>;
             current_progress = \<bar>the (current_value kpi) - the (baseline_value kpi)\<bar>
         in if target_progress > 0
            then Some (min ((current_progress / target_progress) * 100) 100)
            else None)
      else None)"

definition kpi_category_name :: "ESGKpi \<Rightarrow> string" where
  "kpi_category_name kpi =
     (case kpi_category kpi of
        None \<Rightarrow> ''environmental''
      | Some c \<Rightarrow> if c = [] then ''environmental'' else lower c)"

definition score_step :: "ESGKpi \<Rightarrow> (esg_category \<Rightarrow> real list) \<Rightarrow> (esg_category \<Rightarrow> real list)" where
  "score_step kpi category_scores =
     (case kpi_achievement kpi of
        None \<Rightarrow> category_scores
      | Some achievement \<Rightarrow>
          (case category_key (kpi_category_name kpi) of
             None \<Rightarrow> category_scores
           | Some category \<Rightarrow>
               category_scores (category := category_scores category @ [achievement])))"

definition weights :: "(esg_category \<times> real) list" where
  "weights = [(Environmental, 0.40), (Social, 0.30), (Governance, 0.30)]"

definition weight_step ::
  "(esg_category \<Rightarrow> real list) \<Rightarrow> esg_category \<times> real \<Rightarrow> real \<times> real \<Rightarrow> real \<times> real" where
  "weight_step category_scores cw acc =
     (if category_scores (fst cw) \<noteq> [] then
        (let avg_score = sum_list (category_scores (fst cw)) / real (length (category_scores (fst cw)))
         in (fst acc + avg_score * snd cw, snd acc + snd cw))
      else acc)"

text \<open>The dictionary \<^verbatim>\<open>category_scores\<close> as the loop of lines 36 to 50 leaves it.\<close>

definition collect_category_scores :: "ESGKpi list \<Rightarrow> esg_category \<Rightarrow> real list" where
  "collect_category_scores kpis = fold score_step kpis (\<lambda>c. [])"

definition calculate_esg_performance_score :: "database \<Rightarrow> int \<Rightarrow> real" where
  "calculate_esg_performance_score db lid =
     (let kpis = query_kpis db lid
      in if kpis = [] then 50
         else
           (let category_scores = collect_category_scores kpis;
                totals = fold (weight_step category_scores) weights (0, 0);
                total_score = fst totals;
                total_weight = snd totals
            in py_round (if total_weight > 0 then total_score / total_weight else 50) 2))"

subsection \<open>Pricing update: \<^verbatim>\<open>LoanPricingEngine.update_loan_pricing\<close>\<close>

record pricing_result =
  pr_loan_id :: int
  pr_loan_number :: string
  pr_esg_performance_score :: real
  pr_pricing_tier :: string
  pr_base_rate :: real
  pr_base_margin :: real
  pr_margin_adjustment :: real
  pr_new_margin :: real
  pr_new_total_rate :: real
  pr_previous_total_rate :: real
  pr_rate_change :: real
  pr_annual_savings :: real
  pr_annual_cost :: real
  pr_currency :: "string option"
  pr_effective_date :: datetime

fun update_first :: "('a \<Rightarrow> bool) \<Rightarrow> ('a \<Rightarrow> 'a) \<Rightarrow> 'a list \<Rightarrow> 'a list" where
  "update_first P f [] = []"
| "update_first P f (x # xs) = (if P x then f x # xs else x # update_first P f xs)"

text \<open>
  The payload field \<^verbatim>\<open>impact_description\<close>, a formatted sentence, is left out of
  \<open>pricing_result\<close>.
\<close>

definition update_loan_pricing ::
  "database \<Rightarrow> int \<Rightarrow> int option \<Rightarrow> string option \<Rightarrow> datetime \<Rightarrow> error + (pricing_result \<times> database)" where
  "update_loan_pricing db lid user_id reason now =
     (case query_loan db lid of
        None \<Rightarrow> Inl (LoanNotFound lid)
      | Some loan \<Rightarrow>
          (let esg_score = calculate_esg_performance_score db lid;
               tier = determine_pricing_tier esg_score
           in case calculate_margin_adjustment esg_score of
                Inl e \<Rightarrow> Inl e
              | Inr adj \<Rightarrow>
                  (let base_margin' = py_or (base_margin loan) 2.0;
                       new_margin = base_margin' + adj;
                       base_rate = py_or (interest_rate loan) 4.0;
                       new_total_rate = base_rate + new_margin;
                       annual_savings = (if adj < 0 then amount loan * \<bar>adj\<bar> / 100 else 0);
                       annual_cost = (if adj > 0 then amount loan * adj / 100 else 0);
                       loan' = loan\<lparr>esg_performance_score := Some esg_score,
                                     pricing_tier := Some tier,
                                     current_margin := Some new_margin,
                                     margin_adjustment := Some adj,
                                     last_pricing_update := Some now\<rparr>;
                       row = \<lparr>ph_loan_id = lid, effective_date = now, ph_base_rate = base_rate,
                              ph_margin = new_margin, ph_total_rate = new_total_rate,
                              ph_esg_performance_score = esg_score,
                              adjustment_reason =
                                (case reason of
                                   None \<Rightarrow> ''ESG performance tier: '' @ tier
                                 | Some r \<Rightarrow> if r = [] then ''ESG performance tier: '' @ tier else r),
                              adjustment_amount = adj, created_by = user_id\<rparr>;
                       db' = db\<lparr>loans := update_first (\<lambda>l. loan_id l = lid) (\<lambda>l. loan') (loans db),
                                 pricing_history := pricing_history db @ [row]\<rparr>
                   in Inr (\<lparr>pr_loan_id = lid, pr_loan_number = loan_number loan',
                            pr_esg_performance_score = esg_score, pr_pricing_tier = tier,
                            pr_base_rate = base_rate, pr_base_margin = base_margin',
                            pr_margin_adjustment = adj, pr_new_margin = new_margin,
                            pr_new_total_rate = py_round new_total_rate 4,
                            pr_previous_total_rate = py_round (base_rate + base_margin') 4,
                            pr_rate_change = py_round adj 4,
                            pr_annual_savings = (if annual_savings > 0 then py_round annual_savings 2 else 0),
                            pr_annual_cost = (if annual_cost > 0 then py_round annual_cost 2 else 0),
                            pr_currency = currency loan', pr_effective_date = now\<rparr>, db'))))"

record scenario =
  sc_threshold :: real
  sc_margin_adjustment :: real
  sc_new_margin :: real
  sc_new_total_rate :: real
  sc_annual_impact :: real
  sc_impact_type :: string

definition simulate_pricing_scenarios :: "database \<Rightarrow> int \<Rightarrow> error + (string \<times> scenario) list" where
  "simulate_pricing_scenarios db lid =
     (case query_loan db lid of
        None \<Rightarrow> Inl (LoanNotFound lid)
      | Some loan \<Rightarrow>
          (let base_rate = py_or (interest_rate loan) 4.0;
               base_margin' = py_or (base_margin loan) 2.0
           in Inr (map (\<lambda>(tier, config).
                     (let adj = adjustment config;
                          new_margin = base_margin' + adj;
                          new_rate = base_rate + new_margin;
                          annual_impact = amount loan * adj / 100
                      in (tier, \<lparr>sc_threshold = tier_threshold config, sc_margin_adjustment = adj,
                                 sc_new_margin = new_margin,
                                 sc_new_total_rate = py_round new_rate 4,
                                 sc_annual_impact = py_round annual_impact 2,
                                 sc_impact_type =
                                   (if annual_impact < 0 then ''savings''
                                    else if annual_impact > 0 then ''cost'' else ''neutral'')\<rparr>)))
                   pricing_tiers)))"

subsection \<open>Covenant breach probability\<close>

definition minimum_types :: "string list" where
  "minimum_types = [''minimum_ebitda'', ''minimum_equity'', ''minimum_coverage'']"

definition maximum_types :: "string list" where
  "maximum_types = [''maximum_leverage'', ''maximum_debt'']"

definition covenant_distance :: "Covenant \<Rightarrow> real \<Rightarrow> real \<Rightarrow> error + real" where
  "covenant_distance covenant cur thr =
     (if covenant_type covenant \<in> set minimum_types then py_div (cur - thr) thr
      else if covenant_type covenant \<in> set maximum_types then py_div (thr - cur) thr
      else py_div (cur - thr) thr)"

definition breach_indicator :: "real \<Rightarrow> real" where
  "breach_indicator distance =
     (if distance < 0 then 1.0
      else if distance < 0.1 then 0.8
      else if distance < 0.2 then 0.5
      else 0.1)"

fun breach_loop :: "Covenant list \<Rightarrow> real list \<Rightarrow> error + real list" where
  "breach_loop [] breach_indicators = Inr breach_indicators"
| "breach_loop (covenant # rest) breach_indicators =
     (if cov_current_value covenant \<noteq> None \<and> threshold covenant \<noteq> None then
        (case covenant_distance covenant (the (cov_current_value covenant)) (the (threshold covenant)) of
           Inl e \<Rightarrow> Inl e
         | Inr distance \<Rightarrow> breach_loop rest (breach_indicators @ [breach_indicator distance]))
      else breach_loop rest breach_indicators)"

definition calculate_covenant_breach_probability :: "database \<Rightarrow> int \<Rightarrow> error + real" where
  "calculate_covenant_breach_probability db lid =
     (let covs = query_covenants db lid
      in if covs = [] then Inr 0
         else
           (case breach_loop covs [] of
              Inl e \<Rightarrow> Inl e
            | Inr breach_indicators \<Rightarrow>
                Inr (if breach_indicators \<noteq> []
                     then py_round (sum_list breach_indicators / real (length breach_indicators) * 100) 2
                     else 0)))"

subsection \<open>ESG risk and financial risk\<close>

definition risk_step :: "ESGKpi \<Rightarrow> real list \<Rightarrow> real list" where
  "risk_step kpi risk_factors =
     (if truthy (target_value kpi) \<and> truthy (current_value kpi) \<and> truthy (baseline_value kpi) then
        (let target_distance = \<bar>the (target_value kpi) - the (baseline_value kpi)\<bar>;
             current_distance = \<bar>the (current_value kpi) - the (baseline_value kpi)\<bar>
         in if target_distance > 0 then
              (let progress = current_distance / target_distance
               in if progress < 0.25 then risk_factors @ [80]
                  else if progress < 0.5 then risk_factors @ [60]
                  else if progress < 0.75 then risk_factors @ [40]
                  else risk_factors @ [20])
            else risk_factors)
      else risk_factors)"

definition calculate_esg_risk_score :: "database \<Rightarrow> int \<Rightarrow> real" where
  "calculate_esg_risk_score db lid =
     (let kpis = query_kpis db lid
      in if kpis = [] then 50
         else
           (let risk_factors = fold risk_step kpis []
            in if risk_factors \<noteq> []
               then py_round (sum_list risk_factors / real (length risk_factors)) 2
               else 50))"





subsection \<open>Breach date projection: \<^verbatim>\<open>RiskScoringEngine.predict_breach_date\<close>\<close>

fun breach_date_loop :: "datetime \<Rightarrow> Covenant list \<Rightarrow> datetime option \<Rightarrow> error + datetime option" where
  "breach_date_loop now [] earliest_breach = Inr earliest_breach"
| "breach_date_loop now (covenant # rest) earliest_breach =
     (if cov_current_value covenant \<noteq> None \<and> threshold covenant \<noteq> None then
        (if covenant_type covenant \<in> set minimum_types then
           (if the (cov_current_value covenant) < the (threshold covenant) * 1.1 then
              (case py_div (the (cov_current_value covenant) - the (threshold covenant))
                           (the (threshold covenant) * 0.05) of
                 Inl e \<Rightarrow> Inl e
               | Inr months_to_breach \<Rightarrow>
                   (if months_to_breach > 0 \<and> months_to_breach < 12 then
                      (let breach_date = now + days_us (py_int (months_to_breach * 30))
                       in if earliest_breach = None \<or> breach_date < the earliest_breach
                          then breach_date_loop now rest (Some breach_date)
                          else breach_date_loop now rest earliest_breach)
                    else breach_date_loop now rest earliest_breach))
            else breach_date_loop now rest earliest_breach)
         else breach_date_loop now rest earliest_breach)
      else breach_date_loop now rest earliest_breach)"

definition predict_breach_date :: "database \<Rightarrow> int \<Rightarrow> datetime \<Rightarrow> error + datetime option" where
  "predict_breach_date db lid now =
     (let covs = query_covenants db lid
      in if covs = [] then Inr None else breach_date_loop now covs None)"

subsection \<open>Risk assessment and trend\<close>





subsection \<open>SFDR classification and sustainable investment percentage\<close>

definition classify_loan_sfdr_article :: "database \<Rightarrow> int \<Rightarrow> error + string" where
  "classify_loan_sfdr_article db lid =
     (case query_loan db lid of
        None \<Rightarrow> Inl (LoanNotFound lid)
      | Some loan \<Rightarrow>
          (if sustainability_linked loan \<noteq> Some True then Inr ''article_6''
           else
             (let kpis = query_kpis db lid
              in if kpis = [] then Inr ''article_6''
                 else
                   (let meaningful_targets =
                          sum_list (map (\<lambda>kpi. (1::int))
                            (filter (\<lambda>kpi. target_value kpi \<noteq> None \<and> baseline_value kpi \<noteq> None) kpis))
                    in if meaningful_targets \<ge> 5 then Inr ''article_9''
                       else if meaningful_targets \<ge> 2 then Inr ''article_8''
                       else Inr ''article_6''))))"

definition dnsh_step :: "ESGKpi \<Rightarrow> nat \<times> nat \<Rightarrow> nat \<times> nat" where
  "dnsh_step kpi acc =
     (if truthy (target_value kpi) \<and> truthy (current_value kpi) then
        (if the (current_value kpi) \<ge> the (target_value kpi) * 0.8
         then (fst acc + 1, snd acc + 1)
         else (fst acc, snd acc + 1))
      else acc)"

text \<open>
  The pair threaded through the loop is \<^verbatim>\<open>(dnsh_compliant, total_kpis)\<close>; the division is
  reached only with \<open>total_kpis \<noteq> 0\<close>.
\<close>

definition calculate_sustainable_investment_percentage :: "database \<Rightarrow> int \<Rightarrow> real" where
  "calculate_sustainable_investment_percentage db lid =
     (case query_loan db lid of
        None \<Rightarrow> 0
      | Some loan \<Rightarrow>
          (if sustainability_linked loan \<noteq> Some True then 0
           else
             (let kpis = query_kpis db lid
              in if kpis = [] then 0
                 else
                   (let counts = fold dnsh_step kpis (0, 0);
                        dnsh_compliant = fst counts;
                        total_kpis = snd counts
                    in if total_kpis = 0 then 0
                       else
                         (let compliance_rate = real dnsh_compliant / real total_kpis * 100
                          in if compliance_rate \<ge> 90 then 100
                             else if compliance_rate \<ge> 75 then 75
                             else if compliance_rate \<ge> 50 then 50
                             else 0)))))"

subsection \<open>Arithmetic mean\<close>

text \<open>The value \<^verbatim>\<open>sum(xs) / len(xs)\<close> that the scorers compute for a non-empty list.\<close>

definition mean :: "real list \<Rightarrow> real" where
  "mean xs = sum_list xs / real (length xs)"

subsection \<open>Double-precision arithmetic\<close>

text \<open>
  The value of the ESG performance score depends on how each float operation rounds. This
  part writes IEEE 754 binary64 out: a finite double is the real number it denotes, every
  operation computes the exact result and rounds it to the nearest double, ties to even
  (\<open>rnd\<close>, with gradual underflow), and a rounded result beyond the largest double is an
  infinity (\<open>fl\<close>). Signed zeros are not distinguished.
\<close>

definition pow2 :: "int \<Rightarrow> real" where
  "pow2 e = (if 0 \<le> e then 2 ^ nat e else 1 / 2 ^ nat (- e))"

text \<open>The binary exponent of a positive real: \<open>pow2 (expo x) \<le> x < pow2 (expo x + 1)\<close>.\<close>

function expo :: "real \<Rightarrow> int" where
  "expo x =
     (if x \<le> 0 then 0
      else if 2 \<le> x then expo (x / 2) + 1
      else if x < 1 then expo (x * 2) - 1
      else 0)"
  by pat_completeness auto
termination
proof (relation "measure (\<lambda>x. if 1 \<le> x then nat \<lfloor>log 2 x\<rfloor> else nat \<lceil>- log 2 x\<rceil>)")
  show "wf (measure (\<lambda>x. if 1 \<le> x then nat \<lfloor>log 2 x\<rfloor> else nat \<lceil>- log 2 x\<rceil>))"
    by simp
next
  fix x :: real
  assume "\<not> x \<le> 0" "2 \<le> x"
  then have "1 \<le> log 2 x"
    by (simp add: le_log_iff)
  moreover have "log 2 (x / 2) = log 2 x - 1"
    using \<open>2 \<le> x\<close> by (simp add: log_divide)
  ultimately show "(x / 2, x) \<in> measure (\<lambda>x. if 1 \<le> x then nat \<lfloor>log 2 x\<rfloor> else nat \<lceil>- log 2 x\<rceil>)"
    using \<open>2 \<le> x\<close> by (simp add: le_floor_iff)
next
  fix x :: real
  assume h: "\<not> x \<le> 0" "\<not> 2 \<le> x" "x < 1"
  then have neg: "log 2 x < 0"
    by simp
  have l2: "log 2 (x * 2) = log 2 x + 1"
    using h by (simp add: log_mult)
  show "(x * 2, x) \<in> measure (\<lambda>x. if 1 \<le> x then nat \<lfloor>log 2 x\<rfloor> else nat \<lceil>- log 2 x\<rceil>)"
  proof (cases "1 \<le> x * 2")
    case True
    then have "x * 2 < 2" using h by simp
    then have "log 2 (x * 2) < 1" using True by (simp add: log_less_iff)
    moreover have "0 \<le> log 2 (x * 2)" using True by simp
    ultimately have "\<lfloor>log 2 (x * 2)\<rfloor> = 0" by (simp add: floor_eq_iff)
    moreover have "0 < \<lceil>- log 2 x\<rceil>" using neg by simp
    ultimately show ?thesis using True h by simp
  next
    case False
    then have "log 2 (x * 2) < 0" using h by simp
    then have "0 < \<lceil>- log 2 x\<rceil> - 1" using l2 by simp
    then show ?thesis using False h l2 by simp
  qed
qed

declare expo.simps [simp del]

definition rnd :: "real \<Rightarrow> real" where
  "rnd x =
     (if x = 0 then 0
      else (let p = max (expo \<bar>x\<bar>) (- 1022) - 52
            in of_int (round_half_even (x / pow2 p)) * pow2 p))"

datatype float64 = Num real | PInf | NInf | NaN

definition max_double :: real where
  "max_double = (2 ^ 53 - 1) * 2 ^ 971"

definition fl :: "real \<Rightarrow> float64" where
  "fl x =
     (let y = rnd x
      in if max_double < y then PInf else if y < - max_double then NInf else Num y)"

fun fneg :: "float64 \<Rightarrow> float64" where
  "fneg (Num a) = Num (- a)"
| "fneg PInf = NInf"
| "fneg NInf = PInf"
| "fneg NaN = NaN"

fun fabs :: "float64 \<Rightarrow> float64" where
  "fabs (Num a) = Num \<bar>a\<bar>"
| "fabs PInf = PInf"
| "fabs NInf = PInf"
| "fabs NaN = NaN"

fun fadd :: "float64 \<Rightarrow> float64 \<Rightarrow> float64" where
  "fadd (Num a) (Num b) = fl (a + b)"
| "fadd NaN y = NaN"
| "fadd x NaN = NaN"
| "fadd PInf NInf = NaN"
| "fadd NInf PInf = NaN"
| "fadd PInf y = PInf"
| "fadd NInf y = NInf"
| "fadd (Num a) y = y"

definition fsub :: "float64 \<Rightarrow> float64 \<Rightarrow> float64" where
  "fsub x y = fadd x (fneg y)"

text \<open>The sign of a float that is not NaN, for the products and quotients of infinities.\<close>

fun fsign :: "float64 \<Rightarrow> int" where
  "fsign (Num a) = (if a < 0 then - 1 else if a = 0 then 0 else 1)"
| "fsign PInf = 1"
| "fsign NInf = - 1"
| "fsign NaN = 0"

definition signed_inf :: "int \<Rightarrow> float64" where
  "signed_inf s = (if s = 0 then NaN else if 0 < s then PInf else NInf)"

fun fmul :: "float64 \<Rightarrow> float64 \<Rightarrow> float64" where
  "fmul (Num a) (Num b) = fl (a * b)"
| "fmul NaN y = NaN"
| "fmul x NaN = NaN"
| "fmul x y = signed_inf (fsign x * fsign y)"

text \<open>
  Division by a divisor that is not zero. Python raises \<^verbatim>\<open>ZeroDivisionError\<close> on a zero
  divisor; the scorer divides only behind a test that the divisor is positive, or by the
  length of a list that it has tested to be non-empty (\<open>length_divisor_nonzero\<close> below).
\<close>

fun fdiv :: "float64 \<Rightarrow> float64 \<Rightarrow> float64" where
  "fdiv (Num a) (Num b) = fl (a / b)"
| "fdiv NaN y = NaN"
| "fdiv x NaN = NaN"
| "fdiv (Num a) y = Num 0"
| "fdiv x (Num b) = signed_inf (fsign x * fsign (Num b))"
| "fdiv x y = NaN"

text \<open>\<^verbatim>\<open>a < b\<close>: false whenever an operand is NaN.\<close>

fun flt :: "float64 \<Rightarrow> float64 \<Rightarrow> bool" where
  "flt (Num a) (Num b) = (a < b)"
| "flt NaN y = False"
| "flt x NaN = False"
| "flt x PInf = (x \<noteq> PInf)"
| "flt NInf y = (y \<noteq> NInf)"
| "flt x y = False"

text \<open>\<^verbatim>\<open>min(a, b)\<close> of two arguments keeps \<open>a\<close> unless \<open>b < a\<close>.\<close>

definition fmin :: "float64 \<Rightarrow> float64 \<Rightarrow> float64" where
  "fmin a b = (if flt b a then b else a)"

text \<open>
  \<^verbatim>\<open>round(x, 2)\<close> rounds the exact value of the double to two decimals, ties to even, and
  returns the double nearest to that decimal; infinities and NaN are returned as they are.
\<close>

fun fround2 :: "float64 \<Rightarrow> float64" where
  "fround2 (Num a) = fl (of_int (round_half_even (a * 10 ^ 2)) / 10 ^ 2)"
| "fround2 x = x"

text \<open>
  The built-in \<^verbatim>\<open>sum\<close> is not the same function in every interpreter: CPython up to 3.11
  adds from the left, starting from 0 (\<open>fsum\<close>), and later versions use compensated
  summation. The scorer below takes the built-in as a parameter \<open>py_sum\<close>; on a list of
  one element every version returns that element. An achievement capped by \<^verbatim>\<open>min\<close> is the
  integer 100, which \<open>fsum\<close> adds as the double 100.0: the same number as long as the
  partial sums stay below \<open>2^53\<close>. \<open>fmean\<close> is \<^verbatim>\<open>sum(xs) / len(xs)\<close>.
\<close>

definition fsum :: "float64 list \<Rightarrow> float64" where
  "fsum xs = fold (\<lambda>x s. fadd s x) xs (Num 0)"

definition fmean :: "(float64 list \<Rightarrow> float64) \<Rightarrow> float64 list \<Rightarrow> float64" where
  "fmean py_sum xs = fdiv (py_sum xs) (fl (real (length xs)))"

text \<open>A double, and a number in [0,100].\<close>

definition is_double :: "float64 \<Rightarrow> bool" where
  "is_double v = (case v of Num y \<Rightarrow> rnd y = y \<and> \<bar>y\<bar> \<le> max_double | _ \<Rightarrow> True)"

definition in_range :: "float64 \<Rightarrow> bool" where
  "in_range v = (case v of Num a \<Rightarrow> 0 \<le> a \<and> a \<le> 100 | _ \<Rightarrow> False)"

subsection \<open>ESG performance score in double precision\<close>

text \<open>
  \<^verbatim>\<open>calculate_esg_performance_score\<close> once more, line by line as above, with each float
  operation rounded: what is proved of the value of the score is proved of this definition.
  The definitions above are the same lines over exact reals, kept for the properties that
  concern which KPIs are skipped.
\<close>

definition kpi_achievement_f64 :: "ESGKpi \<Rightarrow> float64 option" where
  "kpi_achievement_f64 kpi =
     (if truthy (target_value kpi) \<and> truthy (current_value kpi) \<and> truthy (baseline_value kpi) then
        (let target_progress =
               fabs (fsub (Num (the (target_value kpi))) (Num (the (baseline_value kpi))));
             current_progress =
               fabs (fsub (Num (the (current_value kpi))) (Num (the (baseline_value kpi))))
         in if flt (Num 0) target_progress
            then Some (fmin (fmul (fdiv current_progress target_progress) (Num 100)) (Num 100))
            else None)
      else None)"

definition score_step_f64 ::
  "ESGKpi \<Rightarrow> (esg_category \<Rightarrow> float64 list) \<Rightarrow> (esg_category \<Rightarrow> float64 list)" where
  "score_step_f64 kpi category_scores =
     (case kpi_achievement_f64 kpi of
        None \<Rightarrow> category_scores
      | Some achievement \<Rightarrow>
          (case category_key (kpi_category_name kpi) of
             None \<Rightarrow> category_scores
           | Some category \<Rightarrow>
               category_scores (category := category_scores category @ [achievement])))"

definition collect_category_scores_f64 :: "ESGKpi list \<Rightarrow> esg_category \<Rightarrow> float64 list" where
  "collect_category_scores_f64 kpis = fold score_step_f64 kpis (\<lambda>c. [])"

text \<open>The literals \<^verbatim>\<open>0.40\<close> and \<^verbatim>\<open>0.30\<close> are the doubles nearest to 2/5 and 3/10.\<close>

definition weights_f64 :: "(esg_category \<times> float64) list" where
  "weights_f64 = [(Environmental, fl (2 / 5)), (Social, fl (3 / 10)), (Governance, fl (3 / 10))]"

definition weight_step_f64 ::
  "(float64 list \<Rightarrow> float64) \<Rightarrow> (esg_category \<Rightarrow> float64 list) \<Rightarrow> esg_category \<times> float64
     \<Rightarrow> float64 \<times> float64 \<Rightarrow> float64 \<times> float64" where
  "weight_step_f64 py_sum category_scores cw acc =
     (if category_scores (fst cw) \<noteq> [] then
        (let avg_score = fmean py_sum (category_scores (fst cw))
         in (fadd (fst acc) (fmul avg_score (snd cw)), fadd (snd acc) (snd cw)))
      else acc)"

definition calculate_esg_performance_score_f64 ::
  "(float64 list \<Rightarrow> float64) \<Rightarrow> database \<Rightarrow> int \<Rightarrow> float64" where
  "calculate_esg_performance_score_f64 py_sum db lid =
     (let kpis = query_kpis db lid
      in if kpis = [] then Num 50
         else
           (let category_scores = collect_category_scores_f64 kpis;
                totals = fold (weight_step_f64 py_sum category_scores) weights_f64 (Num 0, Num 0);
                total_score = fst totals;
                total_weight = snd totals
            in fround2 (if flt (Num 0) total_weight then fdiv total_score total_weight
                        else Num 50)))"

subsection \<open>Sample rows\<close>

definition empty_db :: database where
  "empty_db = \<lparr>loans = [], esg_kpis = [], covenants = [], verifications = [],
      pricing_history = [], risk_assessments = []\<rparr>"

definition sample_loan :: Loan where
  "sample_loan = \<lparr>loan_id = 1, loan_number = ''LN-001'', amount = 1000000, currency = Some ''USD'',
      interest_rate = None, base_margin = None, current_margin = None, maturity_date = None,
      loan_status = Some ''defaulted'', sustainability_linked = Some True,
      esg_performance_score = None, pricing_tier = None, margin_adjustment = None,
      last_pricing_update = None, risk_score = None, risk_category = None\<rparr>"

definition sample_kpi :: ESGKpi where
  "sample_kpi = \<lparr>kpi_loan_id = Some 1, kpi_name = ''Board independence'',
      kpi_category = Some ''governance'', target_value = Some 4, current_value = Some 2,
      baseline_value = Some 1\<rparr>"

definition sample_covenant :: Covenant where
  "sample_covenant = \<lparr>cov_loan_id = Some 1, covenant_type = ''minimum_ebitda'',
      threshold = Some 0, cov_current_value = Some 1, cov_status = Some ''compliant''\<rparr>"


text \<open>The double \<open>2^1023\<close>, about \<open>9 \<times> 10^307\<close>.\<close>

definition two_pow_1023 :: real where
  "two_pow_1023 = 2 ^ 1023"

section \<open>Properties\<close>

lemma categorize_risk_cases:
  "categorize_risk s =
     (if 0 \<le> s \<and> s < 25 then ''low''
      else if 25 \<le> s \<and> s < 50 then ''moderate''
      else if 50 \<le> s \<and> s < 75 then ''elevated''
      else if 75 \<le> s then ''high'' else ''low'')"
  by (simp add: categorize_risk_def risk_categories_def)

text \<open>
  C3. For every risk score \<open>s\<close>, \<open>categorize_risk\<close> returns "low" on [0,25), "moderate" on
  [25,50), "elevated" on [50,75) and "high" on [75,100], the top bound included; 24.999 is
  "low", 25.0 is "moderate" and 100.0 is "high".
\<close>

theorem categorize_risk_bands:
  "(0 \<le> s \<and> s < 25 \<longrightarrow> categorize_risk s = ''low'') \<and>
   (25 \<le> s \<and> s < 50 \<longrightarrow> categorize_risk s = ''moderate'') \<and>
   (50 \<le> s \<and> s < 75 \<longrightarrow> categorize_risk s = ''elevated'') \<and>
   (75 \<le> s \<and> s \<le> 100 \<longrightarrow> categorize_risk s = ''high'') \<and>
   categorize_risk (24999 / 1000) = ''low'' \<and>
   categorize_risk 25 = ''moderate'' \<and>
   categorize_risk 100 = ''high''"
  by (simp add: categorize_risk_cases)

theorem categorize_risk_bands_witness:
  "categorize_risk 10 = ''low'' \<and> categorize_risk 30 = ''moderate'' \<and>
   categorize_risk 60 = ''elevated'' \<and> categorize_risk 100 = ''high''"
  using categorize_risk_bands [of 10] categorize_risk_bands [of 30]
    categorize_risk_bands [of 60] categorize_risk_bands [of 100]
  by simp

lemma calculate_margin_adjustment_cases:
  "calculate_margin_adjustment s =
     Inr (if s \<ge> 90 then - 0.50
          else if s \<ge> 75 then - 0.25
          else if s \<ge> 60 then 0
          else if s \<ge> 40 then 0.25
          else 0.50)"
  by (simp add: calculate_margin_adjustment_def determine_pricing_tier_def pricing_tiers_def)

text \<open>
  C6. Pricing tier selection is monotonic: for scores \<open>a < b\<close> the margin adjustment for \<open>a\<close> is
  at least the one for \<open>b\<close>; the tiers are tried in descending threshold order, excellent
  from 90 (-0.50), good from 75 (-0.25), fair from 60 (0.00), poor from 40 (+0.25), critical
  from 0 (+0.50).
\<close>

theorem margin_adjustment_monotonic:
  "a < b \<Longrightarrow>
   (\<exists>x y. calculate_margin_adjustment a = Inr x \<and> calculate_margin_adjustment b = Inr y \<and> y \<le> x) \<and>
   determine_pricing_tier a =
     (if a \<ge> 90 then ''excellent'' else if a \<ge> 75 then ''good'' else if a \<ge> 60 then ''fair''
      else if a \<ge> 40 then ''poor'' else ''critical'') \<and>
   calculate_margin_adjustment a =
     Inr (if a \<ge> 90 then - 0.50 else if a \<ge> 75 then - 0.25 else if a \<ge> 60 then 0
          else if a \<ge> 40 then 0.25 else 0.50)"
  by (simp add: calculate_margin_adjustment_cases determine_pricing_tier_def pricing_tiers_def)

theorem margin_adjustment_monotonic_witness:
  "(50::real) < 80 \<and> calculate_margin_adjustment 50 = Inr 0.25 \<and>
   calculate_margin_adjustment 80 = Inr (- 0.25) \<and> determine_pricing_tier 50 = ''poor''"
  using margin_adjustment_monotonic [of 50 80] calculate_margin_adjustment_cases [of 80]
  by simp

subsection \<open>Division by the covenant threshold\<close>

text \<open>
  C1. The ratio computations check their denominators and leave the contribution out instead of
  raising; in particular \<open>calculate_covenant_breach_probability\<close> raises no division by zero
  for a covenant whose threshold is 0 and whose current value is set.

  The code does not do this: the covenant loop divides by the threshold unguarded. For one
  compliant \<^verbatim>\<open>minimum_ebitda\<close> covenant with threshold 0 and current value 1 the call raises.
\<close>

theorem covenant_breach_probability_zero_threshold:
  "calculate_covenant_breach_probability (empty_db\<lparr>covenants := [sample_covenant]\<rparr>) 1
     = Inl ZeroDivisionError"
  by (simp add: calculate_covenant_breach_probability_def query_covenants_def empty_db_def
      sample_covenant_def covenant_distance_def minimum_types_def py_div_def)

text \<open>
  C8. \<open>predict_breach_date\<close> looks at the non-terminated covenants of the recognised minimum
  types with current value and threshold set and \<open>current < threshold \<times> 1.1\<close>, computes
  \<open>months = (current - threshold) / (threshold \<times> 0.05)\<close>, keeps results strictly between 0 and
  12, and returns the earliest projected date, or none.

  For a \<^verbatim>\<open>minimum_ebitda\<close> covenant with threshold 0 and current value -1 the projection divides
  by zero: the call raises where the claim has it return.
\<close>

theorem predict_breach_date_zero_threshold:
  "predict_breach_date
     (empty_db\<lparr>covenants := [sample_covenant\<lparr>cov_current_value := Some (- 1)\<rparr>]\<rparr>) 1 0
     = Inl ZeroDivisionError"
  by (simp add: predict_breach_date_def query_covenants_def empty_db_def sample_covenant_def
      minimum_types_def py_div_def)

text \<open>
  The rest of the projection is as described: covenants outside the three minimum types, the
  maximum types among them, never yield a date.
\<close>

lemma breach_date_loop_no_minimum:
  "\<forall>c \<in> set covs. covenant_type c \<notin> set minimum_types \<Longrightarrow>
   breach_date_loop now covs earliest = Inr earliest"
  by (induction covs arbitrary: earliest) simp_all

lemma predict_breach_date_no_minimum:
  assumes "\<forall>c \<in> set (query_covenants db lid). covenant_type c \<notin> set minimum_types"
  shows "predict_breach_date db lid now = Inr None"
  by (simp add: predict_breach_date_def Let_def breach_date_loop_no_minimum [OF assms])

subsection \<open>SFDR article\<close>

lemma sum_list_ones: "sum_list (map (\<lambda>x. (1::int)) xs) = int (length xs)"
  by (induction xs) simp_all

text \<open>
  C7. A loan that is not sustainability-linked is "article_6" whatever its KPIs; otherwise, with
  \<open>n\<close> the number of its KPIs that have both target and baseline set, \<open>n \<ge> 5\<close> gives
  "article_9", \<open>n \<ge> 2\<close> gives "article_8", and fewer (also no KPI at all) gives "article_6".
\<close>

theorem classify_loan_sfdr_article_cases:
  assumes "query_loan db lid = Some loan"
  shows "classify_loan_sfdr_article db lid =
     Inr (if sustainability_linked loan \<noteq> Some True then ''article_6''
          else (let n = length (filter (\<lambda>kpi. target_value kpi \<noteq> None \<and> baseline_value kpi \<noteq> None)
                                  (query_kpis db lid))
                in if n \<ge> 5 then ''article_9'' else if n \<ge> 2 then ''article_8'' else ''article_6''))"
  using assms by (simp add: classify_loan_sfdr_article_def sum_list_ones Let_def)

theorem classify_loan_sfdr_article_cases_witness:
  "query_loan (empty_db\<lparr>loans := [sample_loan],
       esg_kpis := [sample_kpi, sample_kpi\<lparr>current_value := None\<rparr>]\<rparr>) 1 = Some sample_loan \<and>
   classify_loan_sfdr_article (empty_db\<lparr>loans := [sample_loan],
       esg_kpis := [sample_kpi, sample_kpi\<lparr>current_value := None\<rparr>]\<rparr>) 1 = Inr ''article_8''"
proof -
  have h: "query_loan (empty_db\<lparr>loans := [sample_loan],
       esg_kpis := [sample_kpi, sample_kpi\<lparr>current_value := None\<rparr>]\<rparr>) 1 = Some sample_loan"
    by (simp add: query_loan_def empty_db_def sample_loan_def)
  show ?thesis
    using classify_loan_sfdr_article_cases [OF h] h
    by (simp add: query_kpis_def empty_db_def sample_loan_def sample_kpi_def)
qed

subsection \<open>Pricing update\<close>

lemma find_update_first:
  "find P xs = Some x \<Longrightarrow> P y \<Longrightarrow> find P (update_first P (\<lambda>l. y) xs) = Some y"
  by (induction xs) (auto split: if_splits)

lemma find_Some_holds: "find P xs = Some x \<Longrightarrow> P x"
  by (induction xs) (auto split: if_splits)

lemma py_or_cases: "py_or v d = (case v of None \<Rightarrow> d | Some x \<Rightarrow> if x = 0 then d else x)"
  by (simp add: py_or_def)

text \<open>
  C10. For a loan whose \<open>base_margin\<close> is null or 0, \<open>update_loan_pricing\<close> takes 2.0 as base
  margin, and for a null or 0 \<open>interest_rate\<close> it takes 4.0 as base rate; the new margin is that
  base margin plus the tier adjustment, and the new total rate is that base rate plus the new
  margin. The stored ledger row and the loan carry these values; the payload shows the total
  rate rounded to four places.
\<close>

theorem update_loan_pricing_defaults:
  assumes "query_loan db lid = Some loan"
  shows "\<exists>res db' adj row loan'.
     update_loan_pricing db lid user_id reason now = Inr (res, db') \<and>
     calculate_margin_adjustment (calculate_esg_performance_score db lid) = Inr adj \<and>
     pr_base_margin res = (case base_margin loan of None \<Rightarrow> 2 | Some m \<Rightarrow> if m = 0 then 2 else m) \<and>
     pr_base_rate res = (case interest_rate loan of None \<Rightarrow> 4 | Some r \<Rightarrow> if r = 0 then 4 else r) \<and>
     pr_margin_adjustment res = adj \<and>
     pr_new_margin res = pr_base_margin res + adj \<and>
     pr_new_total_rate res = py_round (pr_base_rate res + pr_new_margin res) 4 \<and>
     pricing_history db' = pricing_history db @ [row] \<and>
     ph_base_rate row = pr_base_rate res \<and>
     ph_margin row = pr_new_margin res \<and>
     ph_total_rate row = pr_base_rate res + pr_new_margin res \<and>
     query_loan db' lid = Some loan' \<and>
     current_margin loan' = Some (pr_new_margin res)"
proof -
  obtain adj where adj: "calculate_margin_adjustment (calculate_esg_performance_score db lid) = Inr adj"
    by (simp add: calculate_margin_adjustment_cases)
  have lid: "loan_id loan = lid"
    using assms find_Some_holds [of "\<lambda>l. loan_id l = lid" "loans db" loan]
    by (simp add: query_loan_def)
  show ?thesis
    using assms adj lid
    by (simp add: update_loan_pricing_def Let_def py_or_cases query_loan_def find_update_first)
qed

theorem update_loan_pricing_defaults_witness:
  "query_loan (empty_db\<lparr>loans := [sample_loan]\<rparr>) 1 = Some sample_loan \<and>
   (\<exists>res db'. update_loan_pricing (empty_db\<lparr>loans := [sample_loan]\<rparr>) 1 None None 0 = Inr (res, db') \<and>
      pr_base_margin res = 2 \<and> pr_base_rate res = 4 \<and> pr_new_margin res = 9 / 4 \<and>
      ph_total_rate (last (pricing_history db')) = 25 / 4)"
proof -
  have h: "query_loan (empty_db\<lparr>loans := [sample_loan]\<rparr>) 1 = Some sample_loan"
    by (simp add: query_loan_def empty_db_def sample_loan_def)
  have s: "calculate_esg_performance_score (empty_db\<lparr>loans := [sample_loan]\<rparr>) 1 = 50"
    by (simp add: calculate_esg_performance_score_def query_kpis_def empty_db_def)
  from update_loan_pricing_defaults [OF h, of None None 0]
  obtain res db' adj row loan' where r:
     "update_loan_pricing (empty_db\<lparr>loans := [sample_loan]\<rparr>) 1 None None 0 = Inr (res, db')"
     "calculate_margin_adjustment (calculate_esg_performance_score (empty_db\<lparr>loans := [sample_loan]\<rparr>) 1) = Inr adj"
     "pr_base_margin res = (case base_margin sample_loan of None \<Rightarrow> 2 | Some m \<Rightarrow> if m = 0 then 2 else m)"
     "pr_base_rate res = (case interest_rate sample_loan of None \<Rightarrow> 4 | Some r \<Rightarrow> if r = 0 then 4 else r)"
     "pr_new_margin res = pr_base_margin res + adj"
     "pricing_history db' = pricing_history (empty_db\<lparr>loans := [sample_loan]\<rparr>) @ [row]"
     "ph_total_rate row = pr_base_rate res + pr_new_margin res"
    by blast
  have a: "adj = 1 / 4"
    using r(2) by (simp add: s calculate_margin_adjustment_cases)
  show ?thesis
    using h r a by (simp add: sample_loan_def)
qed

text \<open>\<^verbatim>\<open>simulate_pricing_scenarios\<close> substitutes the same two defaults in every scenario.\<close>

lemma simulate_pricing_scenarios_defaults:
  assumes "query_loan db lid = Some loan"
  shows "\<exists>scs. simulate_pricing_scenarios db lid = Inr scs \<and>
     map fst scs = map fst pricing_tiers \<and>
     (\<forall>sc \<in> snd ` set scs.
        sc_new_margin sc = py_or (base_margin loan) 2 + sc_margin_adjustment sc \<and>
        sc_new_total_rate sc = py_round (py_or (interest_rate loan) 4 + sc_new_margin sc) 4)"
  using assms by (simp add: simulate_pricing_scenarios_def Let_def pricing_tiers_def)

subsection \<open>Risk trend\<close>








subsection \<open>ESG performance score in exact arithmetic\<close>

lemma py_round_50: "py_round 50 2 = 50"
  by (simp add: py_round_def round_half_even_def)

lemma totals_explicit:
  "fold (weight_step cs) weights (0, 0) =
     ((if cs Environmental \<noteq> [] then mean (cs Environmental) * 0.4 else 0)
      + (if cs Social \<noteq> [] then mean (cs Social) * 0.3 else 0)
      + (if cs Governance \<noteq> [] then mean (cs Governance) * 0.3 else 0),
      (if cs Environmental \<noteq> [] then 0.4 else 0)
      + (if cs Social \<noteq> [] then 0.3 else 0)
      + (if cs Governance \<noteq> [] then 0.3 else 0))"
  by (simp add: weights_def weight_step_def Let_def mean_def)

text \<open>The early return for a loan without KPIs agrees with what the loops would compute.\<close>

lemma performance_score_explicit:
  "calculate_esg_performance_score db lid =
     (let cs = collect_category_scores (query_kpis db lid);
          ts = (if cs Environmental \<noteq> [] then mean (cs Environmental) * 0.4 else 0)
              + (if cs Social \<noteq> [] then mean (cs Social) * 0.3 else 0)
              + (if cs Governance \<noteq> [] then mean (cs Governance) * 0.3 else 0);
          tw = (if cs Environmental \<noteq> [] then 0.4 else 0)
              + (if cs Social \<noteq> [] then 0.3 else 0)
              + (if cs Governance \<noteq> [] then 0.3 else 0)
      in py_round (if tw > 0 then ts / tw else 50) 2)"
  by (simp add: calculate_esg_performance_score_def Let_def collect_category_scores_def
      totals_explicit py_round_50)

lemma lower_governance: "lower ''governance'' = ''governance''"
  by code_simp

subsection \<open>Which KPIs take part in the aggregations\<close>

lemma query_kpis_split:
  assumes "esg_kpis db = ks1 @ k # ks2"
  shows "query_kpis db lid =
           query_kpis (db\<lparr>esg_kpis := ks1\<rparr>) lid
           @ (if kpi_loan_id k = Some lid then [k] else [])
           @ query_kpis (db\<lparr>esg_kpis := ks2\<rparr>) lid"
    and "query_kpis (db\<lparr>esg_kpis := ks1 @ ks2\<rparr>) lid =
           query_kpis (db\<lparr>esg_kpis := ks1\<rparr>) lid @ query_kpis (db\<lparr>esg_kpis := ks2\<rparr>) lid"
  using assms by (simp_all add: query_kpis_def)

lemma score_step_skip: "kpi_achievement k = None \<Longrightarrow> score_step k cs = cs"
  by (simp add: score_step_def)

lemma kpi_achievement_None_iff:
  "kpi_achievement k = None \<longleftrightarrow>
     target_value k \<in> {None, Some 0} \<or> current_value k \<in> {None, Some 0} \<or>
     baseline_value k \<in> {None, Some 0} \<or> target_value k = baseline_value k"
  by (auto simp: kpi_achievement_def truthy_def Let_def split: option.splits)

lemma performance_score_skip:
  assumes "esg_kpis db = ks1 @ k # ks2" "kpi_achievement k = None"
  shows "calculate_esg_performance_score db lid
           = calculate_esg_performance_score (db\<lparr>esg_kpis := ks1 @ ks2\<rparr>) lid"
proof -
  have "collect_category_scores (query_kpis db lid)
          = collect_category_scores (query_kpis (db\<lparr>esg_kpis := ks1 @ ks2\<rparr>) lid)"
    by (simp add: query_kpis_split [OF assms(1)] collect_category_scores_def
        score_step_skip [OF assms(2)])
  then show ?thesis
    by (simp add: performance_score_explicit)
qed

lemma risk_score_explicit:
  "calculate_esg_risk_score db lid =
     (let risk_factors = fold risk_step (query_kpis db lid) []
      in if risk_factors \<noteq> [] then py_round (mean risk_factors) 2 else 50)"
  by (simp add: calculate_esg_risk_score_def Let_def mean_def)

lemma risk_step_skip:
  "target_value k \<in> {None, Some 0} \<or> current_value k \<in> {None, Some 0} \<or>
   baseline_value k \<in> {None, Some 0} \<Longrightarrow> risk_step k rf = rf"
  by (auto simp: risk_step_def truthy_def)

lemma risk_score_skip:
  assumes "esg_kpis db = ks1 @ k # ks2"
    and "target_value k \<in> {None, Some 0} \<or> current_value k \<in> {None, Some 0} \<or>
         baseline_value k \<in> {None, Some 0}"
  shows "calculate_esg_risk_score db lid
           = calculate_esg_risk_score (db\<lparr>esg_kpis := ks1 @ ks2\<rparr>) lid"
proof -
  have "fold risk_step (query_kpis db lid) []
          = fold risk_step (query_kpis (db\<lparr>esg_kpis := ks1 @ ks2\<rparr>) lid) []"
    by (simp add: query_kpis_split [OF assms(1)] risk_step_skip [OF assms(2)])
  then show ?thesis
    by (simp add: risk_score_explicit)
qed

lemma sustainable_percentage_explicit:
  "calculate_sustainable_investment_percentage db lid =
     (case query_loan db lid of
        None \<Rightarrow> 0
      | Some loan \<Rightarrow>
          if sustainability_linked loan \<noteq> Some True then 0
          else
            (let counts = fold dnsh_step (query_kpis db lid) (0, 0)
             in if snd counts = 0 then 0
                else
                  (let compliance_rate = real (fst counts) / real (snd counts) * 100
                   in if compliance_rate \<ge> 90 then 100
                      else if compliance_rate \<ge> 75 then 75
                      else if compliance_rate \<ge> 50 then 50
                      else 0)))"
  by (simp add: calculate_sustainable_investment_percentage_def Let_def split: option.splits)

lemma query_loan_esg_kpis [simp]: "query_loan (db\<lparr>esg_kpis := ks\<rparr>) lid = query_loan db lid"
  by (simp add: query_loan_def)

lemma dnsh_step_skip:
  "target_value k \<in> {None, Some 0} \<or> current_value k \<in> {None, Some 0} \<Longrightarrow> dnsh_step k acc = acc"
  by (auto simp: dnsh_step_def truthy_def)

lemma dnsh_step_baseline: "dnsh_step (k\<lparr>baseline_value := v\<rparr>) = dnsh_step k"
  by (rule ext) (simp add: dnsh_step_def)

lemma sustainable_percentage_skip:
  assumes "esg_kpis db = ks1 @ k # ks2"
    and "target_value k \<in> {None, Some 0} \<or> current_value k \<in> {None, Some 0}"
  shows "calculate_sustainable_investment_percentage db lid
           = calculate_sustainable_investment_percentage (db\<lparr>esg_kpis := ks1 @ ks2\<rparr>) lid"
proof -
  have "fold dnsh_step (query_kpis db lid) (0, 0)
          = fold dnsh_step (query_kpis (db\<lparr>esg_kpis := ks1 @ ks2\<rparr>) lid) (0, 0)"
    by (simp add: query_kpis_split [OF assms(1)] dnsh_step_skip [OF assms(2)])
  then show ?thesis
    by (simp add: sustainable_percentage_explicit split: option.splits)
qed

lemma sustainable_percentage_baseline:
  assumes "esg_kpis db = ks1 @ k # ks2"
  shows "calculate_sustainable_investment_percentage
           (db\<lparr>esg_kpis := ks1 @ k\<lparr>baseline_value := v\<rparr> # ks2\<rparr>) lid
           = calculate_sustainable_investment_percentage db lid"
proof -
  have "fold dnsh_step (query_kpis (db\<lparr>esg_kpis := ks1 @ k\<lparr>baseline_value := v\<rparr> # ks2\<rparr>) lid) (0, 0)
          = fold dnsh_step (query_kpis db lid) (0, 0)"
    using assms by (simp add: query_kpis_def dnsh_step_baseline)
  then show ?thesis
    by (simp add: sustainable_percentage_explicit split: option.splits)
qed

text \<open>
  C4: every KPI with baseline, current and target present has the achievement
  \<open>min(|current - baseline| / |target - baseline| \<times> 100, 100)\<close>, and only a KPI with target
  equal to baseline or with a missing value is left out. The function does otherwise:
  \<^verbatim>\<open>if kpi.target_value and kpi.current_value and kpi.baseline_value\<close> tests truthiness, and
  a value that is present and 0 fails it. An environmental KPI with baseline 10, target 5 and
  current 0 has all three values, the formula gives 100, and the KPI has no achievement: the
  score of the loan is the default 50. So it is with baseline 0, current 8 and target 10,
  where the formula gives 80.
\<close>

theorem kpi_achievement_zero_value_dropped:
  "current_value (sample_kpi\<lparr>kpi_category := Some ''environmental'', baseline_value := Some 10,
      current_value := Some 0, target_value := Some 5\<rparr>) = Some 0 \<and>
   min (\<bar>0 - 10\<bar> / \<bar>5 - 10\<bar> * 100) 100 = (100::real) \<and>
   kpi_achievement (sample_kpi\<lparr>kpi_category := Some ''environmental'', baseline_value := Some 10,
      current_value := Some 0, target_value := Some 5\<rparr>) = None \<and>
   calculate_esg_performance_score
     (empty_db\<lparr>esg_kpis := [sample_kpi\<lparr>kpi_category := Some ''environmental'',
        baseline_value := Some 10, current_value := Some 0, target_value := Some 5\<rparr>]\<rparr>) 1 = 50 \<and>
   baseline_value (sample_kpi\<lparr>kpi_category := Some ''environmental'', baseline_value := Some 0,
      current_value := Some 8, target_value := Some 10\<rparr>) = Some 0 \<and>
   min (\<bar>8 - 0\<bar> / \<bar>10 - 0\<bar> * 100) 100 = (80::real) \<and>
   kpi_achievement (sample_kpi\<lparr>kpi_category := Some ''environmental'', baseline_value := Some 0,
      current_value := Some 8, target_value := Some 10\<rparr>) = None \<and>
   calculate_esg_performance_score
     (empty_db\<lparr>esg_kpis := [sample_kpi\<lparr>kpi_category := Some ''environmental'',
        baseline_value := Some 0, current_value := Some 8, target_value := Some 10\<rparr>]\<rparr>) 1 = 50"
  by (simp add: kpi_achievement_def truthy_def performance_score_explicit query_kpis_def
      empty_db_def sample_kpi_def collect_category_scores_def score_step_def py_round_50)

text \<open>
  C9, as stated: a KPI whose baseline, current or target value is 0 is left out by the ESG
  performance scorer, the ESG risk scorer and the sustainable-investment percentage alike. The
  percentage never reads the baseline: with baseline 0, target 10 and current 9 the KPI counts
  and the percentage is 100, where it is 0 without the KPI.
\<close>

theorem sustainable_percentage_zero_baseline:
  "baseline_value (sample_kpi\<lparr>baseline_value := Some 0, target_value := Some 10,
      current_value := Some 9\<rparr>) = Some 0 \<and>
   calculate_sustainable_investment_percentage
     (empty_db\<lparr>loans := [sample_loan],
        esg_kpis := [sample_kpi\<lparr>baseline_value := Some 0, target_value := Some 10,
          current_value := Some 9\<rparr>]\<rparr>) 1 = 100 \<and>
   calculate_sustainable_investment_percentage
     (empty_db\<lparr>loans := [sample_loan], esg_kpis := []\<rparr>) 1 = 0"
  by (simp add: sustainable_percentage_explicit query_loan_def query_kpis_def empty_db_def
      sample_loan_def sample_kpi_def dnsh_step_def truthy_def)

text \<open>
  C9, amended. A KPI whose current or target value is 0 is left out by all three computations,
  as a KPI with that value missing is; a KPI whose baseline is 0 (or missing) is left out by
  the ESG performance scorer and the ESG risk scorer, while the sustainable-investment
  percentage does not depend on the baseline at all.
\<close>

theorem zero_valued_kpi_excluded:
  assumes "esg_kpis db = ks1 @ k # ks2"
  shows
   "(target_value k \<in> {None, Some 0} \<or> current_value k \<in> {None, Some 0} \<or>
     baseline_value k \<in> {None, Some 0} \<longrightarrow>
       calculate_esg_performance_score db lid
         = calculate_esg_performance_score (db\<lparr>esg_kpis := ks1 @ ks2\<rparr>) lid \<and>
       calculate_esg_risk_score db lid
         = calculate_esg_risk_score (db\<lparr>esg_kpis := ks1 @ ks2\<rparr>) lid) \<and>
    (target_value k \<in> {None, Some 0} \<or> current_value k \<in> {None, Some 0} \<longrightarrow>
       calculate_sustainable_investment_percentage db lid
         = calculate_sustainable_investment_percentage (db\<lparr>esg_kpis := ks1 @ ks2\<rparr>) lid) \<and>
    (\<forall>v. calculate_sustainable_investment_percentage
            (db\<lparr>esg_kpis := ks1 @ k\<lparr>baseline_value := v\<rparr> # ks2\<rparr>) lid
          = calculate_sustainable_investment_percentage db lid)"
proof (intro conjI impI allI)
  assume z: "target_value k \<in> {None, Some 0} \<or> current_value k \<in> {None, Some 0} \<or>
     baseline_value k \<in> {None, Some 0}"
  then have "kpi_achievement k = None"
    by (simp only: kpi_achievement_None_iff) blast
  from performance_score_skip [OF assms this]
  show "calculate_esg_performance_score db lid
         = calculate_esg_performance_score (db\<lparr>esg_kpis := ks1 @ ks2\<rparr>) lid" .
  from risk_score_skip [OF assms z]
  show "calculate_esg_risk_score db lid
         = calculate_esg_risk_score (db\<lparr>esg_kpis := ks1 @ ks2\<rparr>) lid" .
next
  assume "target_value k \<in> {None, Some 0} \<or> current_value k \<in> {None, Some 0}"
  from sustainable_percentage_skip [OF assms this]
  show "calculate_sustainable_investment_percentage db lid
         = calculate_sustainable_investment_percentage (db\<lparr>esg_kpis := ks1 @ ks2\<rparr>) lid" .
next
  fix v
  from sustainable_percentage_baseline [OF assms]
  show "calculate_sustainable_investment_percentage
            (db\<lparr>esg_kpis := ks1 @ k\<lparr>baseline_value := v\<rparr> # ks2\<rparr>) lid
          = calculate_sustainable_investment_percentage db lid" .
qed

theorem zero_valued_kpi_excluded_witness:
  "current_value (sample_kpi\<lparr>current_value := Some 0\<rparr>) = Some 0 \<and>
   calculate_esg_performance_score
     (empty_db\<lparr>loans := [sample_loan],
        esg_kpis := [] @ sample_kpi\<lparr>current_value := Some 0\<rparr> # [sample_kpi]\<rparr>) 1 = 3333 / 100 \<and>
   calculate_esg_risk_score
     (empty_db\<lparr>loans := [sample_loan],
        esg_kpis := [] @ sample_kpi\<lparr>current_value := Some 0\<rparr> # [sample_kpi]\<rparr>) 1 = 60 \<and>
   calculate_sustainable_investment_percentage
     (empty_db\<lparr>loans := [sample_loan],
        esg_kpis := [] @ sample_kpi\<lparr>current_value := Some 0\<rparr> # [sample_kpi]\<rparr>) 1 = 0"
proof -
  let ?k = "sample_kpi\<lparr>current_value := Some 0\<rparr>"
  let ?db = "empty_db\<lparr>loans := [sample_loan], esg_kpis := [] @ ?k # [sample_kpi]\<rparr>"
  have e: "esg_kpis ?db = [] @ ?k # [sample_kpi]"
    by simp
  have z: "current_value ?k = Some 0"
    by simp
  have r: "?db\<lparr>esg_kpis := [] @ [sample_kpi]\<rparr>
             = empty_db\<lparr>loans := [sample_loan], esg_kpis := [sample_kpi]\<rparr>"
    by simp
  have p: "calculate_esg_performance_score (empty_db\<lparr>loans := [sample_loan], esg_kpis := [sample_kpi]\<rparr>) 1
             = 3333 / 100"
    by (simp add: performance_score_explicit query_kpis_def empty_db_def sample_kpi_def
        collect_category_scores_def score_step_def kpi_achievement_def truthy_def
        kpi_category_name_def lower_governance category_key_def mean_def py_round_def
        round_half_even_def)
  have q: "calculate_esg_risk_score (empty_db\<lparr>loans := [sample_loan], esg_kpis := [sample_kpi]\<rparr>) 1 = 60"
    by (simp add: risk_score_explicit query_kpis_def empty_db_def sample_kpi_def risk_step_def
        truthy_def mean_def py_round_def round_half_even_def)
  have s: "calculate_sustainable_investment_percentage
             (empty_db\<lparr>loans := [sample_loan], esg_kpis := [sample_kpi]\<rparr>) 1 = 0"
    by (simp add: sustainable_percentage_explicit query_loan_def query_kpis_def empty_db_def
        sample_loan_def sample_kpi_def dnsh_step_def truthy_def)
  show ?thesis
    using zero_valued_kpi_excluded [OF e, of 1] z p q s
    by simp
qed

subsection \<open>Rounding to the nearest double\<close>

lemma pow2_eq_powr: "pow2 e = 2 powr (real_of_int e)"
  by (simp add: pow2_def powr_real_of_int field_simps)

lemma pow2_pos [simp]: "0 < pow2 e"
  by (simp add: pow2_eq_powr)

lemma pow2_nonneg [simp]: "0 \<le> pow2 e"
  using pow2_pos [of e] by linarith

lemma pow2_neq_0 [simp]: "pow2 e \<noteq> 0"
  using pow2_pos [of e] by linarith

lemma pow2_add: "pow2 (a + b) = pow2 a * pow2 b"
  by (simp add: pow2_eq_powr powr_add)

lemma pow2_diff: "pow2 (a - b) = pow2 a / pow2 b"
  by (simp add: pow2_eq_powr powr_diff)

lemma pow2_le_iff [simp]: "pow2 a \<le> pow2 b \<longleftrightarrow> a \<le> b"
  by (simp add: pow2_eq_powr)

lemma pow2_less_iff [simp]: "pow2 a < pow2 b \<longleftrightarrow> a < b"
  by (simp add: pow2_eq_powr)

lemma pow2_0 [simp]: "pow2 0 = 1"
  by (simp add: pow2_def)

lemma pow2_1 [simp]: "pow2 1 = 2"
  by (simp add: pow2_def)

lemma pow2_Suc: "pow2 (e + 1) = 2 * pow2 e"
  by (simp add: pow2_eq_powr powr_add)

lemma pow2_pred: "pow2 (e - 1) = pow2 e / 2"
  by (simp add: pow2_eq_powr powr_diff)

lemma pow2_52: "pow2 52 = 2 ^ 52"
  by (simp add: pow2_def)

lemma pow2_53: "pow2 53 = 2 ^ 53"
  by (simp add: pow2_def)

lemma pow2_of_nat_diff: "q \<le> p \<Longrightarrow> pow2 (p - q) = of_int (2 ^ nat (p - q))"
  by (simp add: pow2_def)

lemma expo_bounds: "0 < x \<Longrightarrow> pow2 (expo x) \<le> x \<and> x < pow2 (expo x + 1)"
proof (induction x rule: expo.induct)
  case (1 x)
  show ?case
  proof (cases "2 \<le> x")
    case True
    then have e: "expo x = expo (x / 2) + 1"
      using 1 by (subst expo.simps) simp
    have ih: "pow2 (expo (x / 2)) \<le> x / 2" "x / 2 < pow2 (expo (x / 2) + 1)"
      using 1 True by simp_all
    have "pow2 (expo (x / 2) + 1) \<le> x"
      using ih(1) by (simp add: pow2_Suc)
    moreover have "x < 2 * pow2 (expo (x / 2) + 1)"
      using ih(2) by simp
    then have "x < pow2 (expo (x / 2) + 1 + 1)"
      by (simp only: pow2_Suc)
    ultimately show ?thesis
      unfolding e by simp
  next
    case False
    show ?thesis
    proof (cases "x < 1")
      case True
      then have e: "expo x = expo (x * 2) - 1"
        using 1 False by (subst expo.simps) simp
      have "pow2 (expo (x * 2)) \<le> x * 2 \<and> x * 2 < pow2 (expo (x * 2) + 1)"
        using 1 False True by simp
      then show ?thesis
        unfolding e by (simp add: pow2_pred pow2_Suc [of "expo (x * 2)"])
    next
      case b: False
      then have "expo x = 0"
        using 1 False by (subst expo.simps) simp
      then show ?thesis
        using False b by simp
    qed
  qed
qed

lemma expo_unique:
  assumes "0 < x" "pow2 e \<le> x" "x < pow2 (e + 1)"
  shows "expo x = e"
proof (rule ccontr)
  assume ne: "expo x \<noteq> e"
  from expo_bounds [OF assms(1)] have b: "pow2 (expo x) \<le> x" "x < pow2 (expo x + 1)"
    by simp_all
  show False
  proof (cases "expo x < e")
    case True
    then have "pow2 (expo x + 1) \<le> pow2 e" by simp
    then show False using b(2) assms(2) by linarith
  next
    case False
    then have "e + 1 \<le> expo x" using ne by simp
    then have "pow2 (e + 1) \<le> pow2 (expo x)" by simp
    then show False using b(1) assms(3) by linarith
  qed
qed

lemma expo_mono:
  assumes "0 < x" "x \<le> y"
  shows "expo x \<le> expo y"
proof (rule ccontr)
  assume "\<not> expo x \<le> expo y"
  then have "expo y + 1 \<le> expo x" by simp
  then have "pow2 (expo y + 1) \<le> pow2 (expo x)" by simp
  moreover have "pow2 (expo x) \<le> x" using expo_bounds [OF assms(1)] by simp
  moreover have "y < pow2 (expo y + 1)" using expo_bounds [of y] assms by simp
  ultimately show False using assms(2) by linarith
qed

lemma round_half_even_of_int [simp]: "round_half_even (of_int n) = n"
  by (simp add: round_half_even_def)

lemma round_half_even_le:
  assumes "x \<le> of_int n"
  shows "round_half_even x \<le> n"
proof (cases "x = of_int \<lfloor>x\<rfloor>")
  case True
  have "\<lfloor>x\<rfloor> \<le> n" using assms by (simp add: floor_le_iff)
  moreover have "x - of_int \<lfloor>x\<rfloor> = 0" using True by simp
  ultimately show ?thesis by (simp add: round_half_even_def Let_def)
next
  case False
  then have "of_int \<lfloor>x\<rfloor> < x" using of_int_floor_le [of x] by linarith
  then have "of_int \<lfloor>x\<rfloor> < (of_int n :: real)" using assms by linarith
  then have "\<lfloor>x\<rfloor> < n" by simp
  then show ?thesis by (simp add: round_half_even_def Let_def)
qed

lemma round_half_even_ge:
  assumes "of_int n \<le> x"
  shows "n \<le> round_half_even x"
proof -
  have "n \<le> \<lfloor>x\<rfloor>" using assms by (simp add: le_floor_iff)
  then show ?thesis by (simp add: round_half_even_def Let_def)
qed

lemma round_half_even_mono:
  assumes "x \<le> y"
  shows "round_half_even x \<le> round_half_even y"
proof (cases "\<lfloor>x\<rfloor> = \<lfloor>y\<rfloor>")
  case True
  then show ?thesis
    using assms by (auto simp: round_half_even_def Let_def)
next
  case False
  then have "\<lfloor>x\<rfloor> < \<lfloor>y\<rfloor>" using assms floor_mono [of x y] by linarith
  then have "\<lfloor>x\<rfloor> + 1 \<le> \<lfloor>y\<rfloor>" by simp
  moreover have "round_half_even x \<le> \<lfloor>x\<rfloor> + 1"
    by (simp add: round_half_even_def Let_def)
  moreover have "\<lfloor>y\<rfloor> \<le> round_half_even y"
    by (simp add: round_half_even_def Let_def)
  ultimately show ?thesis by linarith
qed

lemma round_half_even_uminus: "round_half_even (- x) = - round_half_even x"
proof (cases "x = of_int \<lfloor>x\<rfloor>")
  case True
  then obtain n where "x = of_int n" ..
  then show ?thesis
    by (metis of_int_minus round_half_even_of_int)
next
  case False
  then have lt: "of_int \<lfloor>x\<rfloor> < x" using of_int_floor_le [of x] by linarith
  have "x < of_int \<lfloor>x\<rfloor> + 1" by linarith
  then have fl: "\<lfloor>- x\<rfloor> = - \<lfloor>x\<rfloor> - 1"
    using lt by (intro floor_unique) (simp_all, linarith+)
  show ?thesis
    using lt unfolding round_half_even_def Let_def fl
    by (auto simp: field_simps)
qed

text \<open>How \<open>rnd\<close> is computed once the binary exponent of the argument is known.\<close>

lemma rnd_eval:
  assumes "pow2 e \<le> \<bar>x\<bar>" "\<bar>x\<bar> < pow2 (e + 1)" "- 1022 \<le> e"
  shows "rnd x = of_int (round_half_even (x / pow2 (e - 52))) * pow2 (e - 52)"
proof -
  have "0 < \<bar>x\<bar>" using assms(1) pow2_pos [of e] by linarith
  then have "expo \<bar>x\<bar> = e" using assms by (intro expo_unique) simp_all
  then show ?thesis using \<open>0 < \<bar>x\<bar>\<close> assms(3) by (simp add: rnd_def Let_def)
qed

lemma rnd_0 [simp]: "rnd 0 = 0"
  by (simp add: rnd_def)

lemma rnd_nonneg: "0 \<le> x \<Longrightarrow> 0 \<le> rnd x"
proof -
  assume "0 \<le> x"
  have "0 \<le> round_half_even (x / pow2 p)" for p
  proof (rule round_half_even_ge)
    show "of_int 0 \<le> x / pow2 p" using \<open>0 \<le> x\<close> by simp
  qed
  then show ?thesis by (simp add: rnd_def Let_def)
qed

lemma rnd_uminus: "rnd (- x) = - rnd x"
  by (simp add: rnd_def Let_def round_half_even_uminus)

lemma rnd_exact_pos:
  assumes "x = of_int m * pow2 p" "0 < m" "m < 2 ^ 53" "- 1074 \<le> p"
  shows "rnd x = x"
proof -
  have xpos: "0 < x" using assms(1,2) by simp
  define q where "q = max (expo \<bar>x\<bar>) (- 1022) - 52"
  have "of_int m < (2 ^ 53 :: real)"
    using assms(3) by (metis of_int_less_iff of_int_numeral of_int_power)
  then have "x < 2 ^ 53 * pow2 p"
    using assms(1) by simp
  also have "\<dots> = pow2 (53 + p)"
    by (simp add: pow2_add pow2_53)
  finally have "pow2 (expo x) < pow2 (53 + p)"
    using expo_bounds [OF xpos] by linarith
  then have "expo x \<le> 52 + p" by simp
  then have qle: "q \<le> p"
    using xpos assms(4) by (simp add: q_def)
  have "x / pow2 q = of_int m * pow2 (p - q)"
    using assms(1) by (simp add: pow2_diff)
  also have "\<dots> = of_int (m * 2 ^ nat (p - q))"
    using qle by (simp add: pow2_of_nat_diff)
  finally have "round_half_even (x / pow2 q) = m * 2 ^ nat (p - q)"
    by (simp only: round_half_even_of_int)
  then have "of_int (round_half_even (x / pow2 q)) * pow2 q = of_int m * (pow2 (p - q) * pow2 q)"
    using qle by (simp add: pow2_of_nat_diff)
  also have "\<dots> = x"
    using assms(1) by (simp add: pow2_diff)
  finally show ?thesis
    using xpos by (simp add: rnd_def Let_def q_def)
qed

text \<open>A number with at most 53 significant bits, not below the subnormal grid, is a double.\<close>

lemma rnd_exact:
  assumes "x = of_int m * pow2 p" "\<bar>m\<bar> \<le> 2 ^ 53" "- 1074 \<le> p"
  shows "rnd x = x"
proof -
  have pos: "rnd y = y" if "y = of_int k * pow2 p" "0 < k" "k \<le> 2 ^ 53" for y k
  proof (cases "k = 2 ^ 53")
    case True
    then have "y = of_int (2 ^ 52) * pow2 (p + 1)"
      using that(1) by (simp add: pow2_Suc)
    then show ?thesis
      using assms(3) by (intro rnd_exact_pos [of y "2 ^ 52" "p + 1"]) simp_all
  next
    case False
    then have "k < 2 ^ 53" using that(3) by simp
    then show ?thesis
      using that assms(3) by (intro rnd_exact_pos [of y k p]) simp_all
  qed
  consider "m = 0" | "0 < m" | "m < 0" by linarith
  then show ?thesis
  proof cases
    case 1
    then show ?thesis using assms(1) by simp
  next
    case 2
    then show ?thesis using pos [of x m] assms(1,2) by simp
  next
    case 3
    then have "rnd (- x) = - x"
      using pos [of "- x" "- m"] assms(1,2) by simp
    then show ?thesis by (simp add: rnd_uminus)
  qed
qed

lemma rnd_of_int: "\<bar>n\<bar> \<le> 2 ^ 53 \<Longrightarrow> rnd (of_int n) = of_int n"
  using rnd_exact [of "of_int n" n 0] by simp

lemma rnd_form_pos:
  assumes "0 < x"
  shows "\<exists>m p. rnd x = of_int m * pow2 p \<and> 0 \<le> m \<and> m \<le> 2 ^ 53 \<and> - 1074 \<le> p"
proof -
  define q where "q = max (expo \<bar>x\<bar>) (- 1022) - 52"
  have q: "- 1074 \<le> q" "expo x + 1 \<le> q + 53"
    using assms by (simp_all add: q_def)
  have "x < pow2 (expo x + 1)" using expo_bounds [OF assms] by simp
  also have "\<dots> \<le> pow2 (q + 53)" using q(2) by simp
  also have "\<dots> = 2 ^ 53 * pow2 q" by (simp add: pow2_add pow2_53)
  finally have "x / pow2 q \<le> of_int (2 ^ 53)"
    by (simp add: pos_divide_le_eq)
  then have "round_half_even (x / pow2 q) \<le> 2 ^ 53"
    by (rule round_half_even_le)
  moreover have "0 \<le> round_half_even (x / pow2 q)"
  proof (rule round_half_even_ge)
    show "of_int 0 \<le> x / pow2 q" using assms by simp
  qed
  moreover have "rnd x = of_int (round_half_even (x / pow2 q)) * pow2 q"
    using assms by (simp add: rnd_def Let_def q_def)
  ultimately show ?thesis using q(1) by blast
qed

lemma rnd_idem [simp]: "rnd (rnd x) = rnd x"
proof -
  have pos: "rnd (rnd y) = rnd y" if "0 < y" for y
  proof -
    from rnd_form_pos [OF that] obtain m p where
      "rnd y = of_int m * pow2 p" "0 \<le> m" "m \<le> 2 ^ 53" "- 1074 \<le> p" by blast
    then show ?thesis by (intro rnd_exact [of _ m p]) simp_all
  qed
  consider "x = 0" | "0 < x" | "x < 0" by linarith
  then show ?thesis
  proof cases
    case 1
    then show ?thesis by simp
  next
    case 2
    then show ?thesis by (rule pos)
  next
    case 3
    then have "rnd (rnd (- x)) = rnd (- x)" by (intro pos) simp
    then show ?thesis by (simp add: rnd_uminus)
  qed
qed

lemma rnd_mono_pos:
  assumes "0 < x" "x \<le> y"
  shows "rnd x \<le> rnd y"
proof -
  have ypos: "0 < y" using assms by linarith
  define ex where "ex = max (expo \<bar>x\<bar>) (- 1022)"
  define ey where "ey = max (expo \<bar>y\<bar>) (- 1022)"
  have rx: "rnd x = of_int (round_half_even (x / pow2 (ex - 52))) * pow2 (ex - 52)"
    using assms(1) by (simp add: rnd_def Let_def ex_def)
  have ry: "rnd y = of_int (round_half_even (y / pow2 (ey - 52))) * pow2 (ey - 52)"
    using ypos by (simp add: rnd_def Let_def ey_def)
  have le: "ex \<le> ey"
    using expo_mono [OF assms] assms(1) ypos by (simp add: ex_def ey_def)
  show ?thesis
  proof (cases "ex = ey")
    case True
    have "x / pow2 (ey - 52) \<le> y / pow2 (ey - 52)"
      using assms(2) by (simp add: divide_right_mono)
    then have "round_half_even (x / pow2 (ey - 52)) \<le> round_half_even (y / pow2 (ey - 52))"
      by (rule round_half_even_mono)
    then show ?thesis
      unfolding rx ry True by (simp add: mult_right_mono)
  next
    case False
    then have lt: "ex + 1 \<le> ey" using le by simp
    then have eyy: "ey = expo y" using ypos by (simp add: ex_def ey_def)
    have "x < pow2 (expo x + 1)" using expo_bounds [OF assms(1)] by simp
    also have "\<dots> \<le> pow2 (ex + 1)" using assms(1) by (simp add: ex_def)
    also have "\<dots> = 2 ^ 53 * pow2 (ex - 52)"
      by (simp add: pow2_Suc pow2_diff pow2_52)
    finally have "x / pow2 (ex - 52) \<le> of_int (2 ^ 53)"
      by (simp add: pos_divide_le_eq)
    then have "round_half_even (x / pow2 (ex - 52)) \<le> 2 ^ 53"
      by (rule round_half_even_le)
    then have "real_of_int (round_half_even (x / pow2 (ex - 52))) \<le> 2 ^ 53"
      by (metis of_int_le_iff of_int_numeral of_int_power)
    then have "rnd x \<le> 2 ^ 53 * pow2 (ex - 52)"
      unfolding rx by (simp add: mult_right_mono)
    also have "\<dots> = pow2 (ex + 1)"
      by (simp add: pow2_Suc pow2_diff pow2_52)
    also have "\<dots> \<le> pow2 ey" using lt by simp
    finally have a: "rnd x \<le> pow2 ey" .
    have "pow2 ey \<le> y" using expo_bounds [OF ypos] by (simp add: eyy)
    moreover have "pow2 ey = 2 ^ 52 * pow2 (ey - 52)"
      by (simp add: pow2_diff pow2_52)
    ultimately have "of_int (2 ^ 52) \<le> y / pow2 (ey - 52)"
      by (simp add: pos_le_divide_eq)
    then have "2 ^ 52 \<le> round_half_even (y / pow2 (ey - 52))"
      by (rule round_half_even_ge)
    then have "2 ^ 52 \<le> real_of_int (round_half_even (y / pow2 (ey - 52)))"
      by (metis of_int_le_iff of_int_numeral of_int_power)
    then have "2 ^ 52 * pow2 (ey - 52) \<le> rnd y"
      unfolding ry by (simp add: mult_right_mono)
    then have "pow2 ey \<le> rnd y"
      by (simp add: pow2_diff pow2_52)
    then show ?thesis using a by linarith
  qed
qed

text \<open>Rounding is monotone (used on non-negative values only).\<close>

lemma rnd_mono:
  assumes "0 \<le> x" "x \<le> y"
  shows "rnd x \<le> rnd y"
proof (cases "x = 0")
  case True
  then show ?thesis using assms rnd_nonneg [of y] by simp
next
  case False
  then show ?thesis using assms by (intro rnd_mono_pos) simp_all
qed

subsection \<open>The score in double precision\<close>

lemma max_double_ge: "2 ^ 53 \<le> max_double"
  by (simp add: max_double_def)

lemma fl_Num: "\<bar>rnd x\<bar> \<le> max_double \<Longrightarrow> fl x = Num (rnd x)"
  by (auto simp: fl_def Let_def)

lemma fl_of_int: "\<bar>n\<bar> \<le> 2 ^ 53 \<Longrightarrow> fl (of_int n) = Num (of_int n)"
proof -
  assume h: "\<bar>n\<bar> \<le> 2 ^ 53"
  then have "\<bar>real_of_int n\<bar> \<le> 2 ^ 53"
    by (metis of_int_abs of_int_le_iff of_int_numeral of_int_power)
  then show ?thesis
    using rnd_of_int [OF h] max_double_ge by (simp add: fl_Num)
qed

text \<open>The length of a non-empty list is not rounded to zero: the mean never divides by zero.\<close>

lemma length_divisor_nonzero: "xs \<noteq> [] \<Longrightarrow> fl (real (length xs)) \<noteq> Num 0"
proof -
  assume "xs \<noteq> []"
  then have "1 \<le> real (length xs)" by (cases xs) simp_all
  from rnd_mono [of 1 "real (length xs)"] this have "rnd 1 \<le> rnd (real (length xs))" by simp
  moreover have "rnd 1 = 1" using rnd_of_int [of 1] by simp
  ultimately have "0 < rnd (real (length xs))" by simp
  then show ?thesis by (auto simp: fl_def Let_def)
qed

lemma is_double_fl [simp]: "is_double (fl x)"
  by (auto simp: fl_def Let_def is_double_def)

lemma is_double_signed_inf [simp]: "is_double (signed_inf s)"
  by (simp add: signed_inf_def is_double_def)


lemma is_double_special [simp]: "is_double NaN" "is_double PInf" "is_double NInf"
  by (simp_all add: is_double_def)

lemma is_double_fmul [simp]: "is_double (fmul x y)"
  by (cases x; cases y) simp_all

lemma is_double_Num_0 [simp]: "is_double (Num 0)"
  by (simp add: is_double_def max_double_def)

lemma fadd_zero_left: "is_double v \<Longrightarrow> fadd (Num 0) v = v"
  by (cases v) (simp_all add: is_double_def fl_Num)

lemma fl_bounded:
  assumes "0 \<le> x" "x \<le> b" "rnd b = b" "b \<le> 2 ^ 53"
  shows "fl x = Num (rnd x) \<and> 0 \<le> rnd x \<and> rnd x \<le> b"
proof -
  have lo: "0 \<le> rnd x" using assms(1) by (rule rnd_nonneg)
  have hi: "rnd x \<le> b" using rnd_mono [OF assms(1,2)] assms(3) by simp
  then have "\<bar>rnd x\<bar> \<le> max_double" using lo assms(4) max_double_ge by linarith
  then show ?thesis using lo hi by (simp add: fl_Num)
qed

lemma w4: "fl (2 / 5) = Num (3602879701896397 / 9007199254740992)"
proof -
  have "rnd (2 / 5) = 3602879701896397 / 9007199254740992"
    using rnd_eval [of "- 2" "2 / 5"] by (simp add: pow2_def round_half_even_def)
  then show ?thesis using max_double_ge by (simp add: fl_Num)
qed

lemma w3: "fl (3 / 10) = Num (5404319552844595 / 18014398509481984)"
proof -
  have "rnd (3 / 10) = 5404319552844595 / 18014398509481984"
    using rnd_eval [of "- 2" "3 / 10"] by (simp add: pow2_def round_half_even_def)
  then show ?thesis using max_double_ge by (simp add: fl_Num)
qed

lemma fround2_50: "fround2 (Num 50) = Num 50"
proof -
  have "rnd 50 = 50" using rnd_of_int [of 50] by simp
  then show ?thesis using max_double_ge by (simp add: fl_Num round_half_even_def)
qed

lemma totals_f64_explicit:
  "fold (weight_step_f64 py_sum cs) weights_f64 (Num 0, Num 0) =
     (let t1 = (if cs Environmental \<noteq> []
                then (fadd (Num 0) (fmul (fmean py_sum (cs Environmental)) (fl (2 / 5))), fadd (Num 0) (fl (2 / 5)))
                else (Num 0, Num 0));
          t2 = (if cs Social \<noteq> []
                then (fadd (fst t1) (fmul (fmean py_sum (cs Social)) (fl (3 / 10))), fadd (snd t1) (fl (3 / 10)))
                else t1)
      in if cs Governance \<noteq> []
         then (fadd (fst t2) (fmul (fmean py_sum (cs Governance)) (fl (3 / 10))), fadd (snd t2) (fl (3 / 10)))
         else t2)"
  by (simp add: weights_f64_def weight_step_f64_def Let_def)

lemma score_f64_explicit:
  "calculate_esg_performance_score_f64 py_sum db lid =
     (let totals = fold (weight_step_f64 py_sum (collect_category_scores_f64 (query_kpis db lid)))
                     weights_f64 (Num 0, Num 0)
      in fround2 (if flt (Num 0) (snd totals) then fdiv (fst totals) (snd totals) else Num 50))"
  by (simp add: calculate_esg_performance_score_f64_def Let_def collect_category_scores_f64_def
      totals_f64_explicit fround2_50 del: fround2.simps)

lemma score_f64_none:
  assumes "\<forall>c. collect_category_scores_f64 (query_kpis db lid) c = []"
  shows "calculate_esg_performance_score_f64 py_sum db lid = Num 50"
  using assms by (simp add: score_f64_explicit totals_f64_explicit fround2_50 del: fround2.simps)

lemma score_f64_single:
  assumes "collect_category_scores_f64 (query_kpis db lid) c \<noteq> []"
    and "\<forall>c'. c' \<noteq> c \<longrightarrow> collect_category_scores_f64 (query_kpis db lid) c' = []"
    and "map_of weights_f64 c = Some w"
  shows "calculate_esg_performance_score_f64 py_sum db lid
           = fround2 (fdiv (fmul (fmean py_sum (collect_category_scores_f64 (query_kpis db lid) c)) w) w)"
proof -
  have z: "fadd (Num 0) (fl x) = fl x" for x
    by (simp add: fadd_zero_left)
  have m: "fadd (Num 0) (fmul x y) = fmul x y" for x y
    by (simp add: fadd_zero_left)
  have w: "w = (case c of Environmental \<Rightarrow> fl (2 / 5) | Social \<Rightarrow> fl (3 / 10)
                 | Governance \<Rightarrow> fl (3 / 10))"
    using assms(3) by (cases c) (simp_all add: weights_f64_def)
  have p: "flt (Num 0) (fl (2 / 5))" "flt (Num 0) (fl (3 / 10))"
    by (simp_all add: w3 w4)
  show ?thesis
    using assms(1,2) p
    by (cases c) (simp_all add: w score_f64_explicit totals_f64_explicit Let_def z m
        del: fround2.simps)
qed

lemma in_range_Num [simp]: "in_range (Num a) \<longleftrightarrow> 0 \<le> a \<and> a \<le> 100"
  by (simp add: in_range_def)

lemma in_range_special [simp]: "\<not> in_range NaN" "\<not> in_range PInf" "\<not> in_range NInf"
  by (simp_all add: in_range_def)

lemma fl_nonneg_cases:
  assumes "0 \<le> x"
  shows "fl x = PInf \<or> (\<exists>a. fl x = Num a \<and> 0 \<le> a)"
  using rnd_nonneg [OF assms] by (auto simp: fl_def Let_def max_double_def)

lemma fabs_fl_cases: "fabs (fl x) = PInf \<or> (\<exists>a. fabs (fl x) = Num a \<and> 0 \<le> a)"
  by (auto simp: fl_def Let_def)

lemma achievement_value_cases:
  assumes "cp = PInf \<or> (\<exists>a. cp = Num a \<and> 0 \<le> a)"
    and "tp = PInf \<or> (\<exists>a. tp = Num a \<and> 0 < a)"
  shows "fmin (fmul (fdiv cp tp) (Num 100)) (Num 100) = NaN
         \<or> in_range (fmin (fmul (fdiv cp tp) (Num 100)) (Num 100))"
proof -
  have q: "fdiv cp tp = NaN \<or> fdiv cp tp = PInf \<or> (\<exists>a. fdiv cp tp = Num a \<and> 0 \<le> a)"
  proof -
    consider "cp = PInf" "tp = PInf" | a where "cp = PInf" "tp = Num a" "0 < a"
      | a where "cp = Num a" "0 \<le> a" "tp = PInf"
      | a b where "cp = Num a" "0 \<le> a" "tp = Num b" "0 < b"
      using assms by blast
    then show ?thesis
    proof cases
      case 1
      then show ?thesis by simp
    next
      case 2
      then show ?thesis by (simp add: signed_inf_def)
    next
      case 3
      then show ?thesis by simp
    next
      case 4
      then have "0 \<le> a / b" by simp
      from fl_nonneg_cases [OF this] show ?thesis using 4 by auto
    qed
  qed
  have m: "fmul (fdiv cp tp) (Num 100) = NaN \<or> fmul (fdiv cp tp) (Num 100) = PInf
           \<or> (\<exists>a. fmul (fdiv cp tp) (Num 100) = Num a \<and> 0 \<le> a)"
  proof -
    consider "fdiv cp tp = NaN" | "fdiv cp tp = PInf" | a where "fdiv cp tp = Num a" "0 \<le> a"
      using q by blast
    then show ?thesis
    proof cases
      case 1
      then show ?thesis by simp
    next
      case 2
      then show ?thesis by (simp add: signed_inf_def)
    next
      case 3
      then have "0 \<le> a * 100" by simp
      from fl_nonneg_cases [OF this] show ?thesis using 3 by auto
    qed
  qed
  then show ?thesis
    by (auto simp: fmin_def)
qed

lemma kpi_achievement_f64_cases:
  assumes "kpi_achievement_f64 k = Some v"
  shows "v = NaN \<or> in_range v"
proof -
  let ?tp = "fabs (fsub (Num (the (target_value k))) (Num (the (baseline_value k))))"
  let ?cp = "fabs (fsub (Num (the (current_value k))) (Num (the (baseline_value k))))"
  have v: "v = fmin (fmul (fdiv ?cp ?tp) (Num 100)) (Num 100)" and pos: "flt (Num 0) ?tp"
    using assms by (auto simp: kpi_achievement_f64_def Let_def split: if_splits)
  have c: "?cp = PInf \<or> (\<exists>a. ?cp = Num a \<and> 0 \<le> a)"
    using fabs_fl_cases by (simp add: fsub_def)
  have "?tp = PInf \<or> (\<exists>a. ?tp = Num a \<and> 0 \<le> a)"
    using fabs_fl_cases by (simp add: fsub_def)
  then have t: "?tp = PInf \<or> (\<exists>a. ?tp = Num a \<and> 0 < a)"
    using pos by auto
  from achievement_value_cases [OF c t] show ?thesis
    unfolding v .
qed

lemma score_step_f64_inv:
  assumes "\<forall>c. \<forall>v \<in> set (cs c). v = NaN \<or> in_range v"
  shows "\<forall>c. \<forall>v \<in> set (score_step_f64 k cs c). v = NaN \<or> in_range v"
  using assms kpi_achievement_f64_cases [of k]
  by (auto simp: score_step_f64_def split: option.splits)

lemma score_step_f64_length:
  "length (score_step_f64 k cs c) \<le> Suc (length (cs c))"
  by (auto simp: score_step_f64_def split: option.splits)

lemma fold_score_step_f64_inv:
  "\<forall>c. \<forall>v \<in> set (cs c). v = NaN \<or> in_range v \<Longrightarrow>
   \<forall>c. \<forall>v \<in> set (fold score_step_f64 ks cs c). v = NaN \<or> in_range v"
proof (induction ks arbitrary: cs)
  case Nil
  then show ?case by simp
next
  case (Cons k ks)
  from score_step_f64_inv [OF Cons.prems]
  have "\<forall>c. \<forall>v \<in> set (score_step_f64 k cs c). v = NaN \<or> in_range v" .
  from Cons.IH [OF this] show ?case by simp
qed

lemma fold_score_step_f64_length:
  "length (fold score_step_f64 ks cs c) \<le> length ks + length (cs c)"
proof (induction ks arbitrary: cs)
  case Nil
  then show ?case by simp
next
  case (Cons k ks)
  have "length (fold score_step_f64 ks (score_step_f64 k cs) c)
          \<le> length ks + length (score_step_f64 k cs c)"
    by (rule Cons.IH)
  then show ?case
    using score_step_f64_length [of k cs c] by simp
qed

lemma collect_f64_values:
  "v \<in> set (collect_category_scores_f64 ks c) \<Longrightarrow> v = NaN \<or> in_range v"
  using fold_score_step_f64_inv [of "\<lambda>c. []" ks] by (simp add: collect_category_scores_f64_def)

lemma collect_f64_length: "length (collect_category_scores_f64 ks c) \<le> length ks"
  using fold_score_step_f64_length [of ks "\<lambda>c. []" c] by (simp add: collect_category_scores_f64_def)

lemma fl_bounded_by:
  assumes "0 \<le> x" "x \<le> y" "rnd y = b" "b \<le> 2 ^ 53"
  shows "\<exists>v. fl x = Num v \<and> 0 \<le> v \<and> v \<le> b"
proof -
  have lo: "0 \<le> rnd x" using assms(1) by (rule rnd_nonneg)
  have hi: "rnd x \<le> b" using rnd_mono [OF assms(1,2)] assms(3) by simp
  then have "\<bar>rnd x\<bar> \<le> max_double" using lo assms(4) max_double_ge by linarith
  then show ?thesis using lo hi by (simp add: fl_Num)
qed

lemma fold_fadd_bound:
  assumes "\<forall>v \<in> set xs. in_range v" "0 \<le> s" "s \<le> 100 * real k" "k + length xs \<le> 2 ^ 46"
  shows "\<exists>t. fold (\<lambda>x s. fadd s x) xs (Num s) = Num t \<and> 0 \<le> t \<and> t \<le> 100 * real (k + length xs)"
  using assms
proof (induction xs arbitrary: s k)
  case Nil
  then show ?case by simp
next
  case (Cons x xs)
  from Cons.prems(1) obtain a where a: "x = Num a" "0 \<le> a" "a \<le> 100"
    by (cases x) auto
  have k: "Suc k \<le> 2 ^ 46" using Cons.prems(4) by simp
  have "int (100 * Suc k) \<le> 100 * 2 ^ 46" using k by simp
  then have "\<bar>int (100 * Suc k)\<bar> \<le> 2 ^ 53" by simp
  from rnd_of_int [OF this] have r: "rnd (100 * real (Suc k)) = 100 * real (Suc k)"
    by simp
  have b: "100 * real (Suc k) \<le> 2 ^ 53"
  proof -
    have "real (Suc k) \<le> 2 ^ 46" using k by (metis of_nat_le_iff of_nat_numeral of_nat_power)
    then show ?thesis by simp
  qed
  have "\<exists>v. fl (s + a) = Num v \<and> 0 \<le> v \<and> v \<le> 100 * real (Suc k)"
    using Cons.prems(2,3) a(2,3) r b by (intro fl_bounded_by [of _ "100 * real (Suc k)"]) simp_all
  then obtain v where v: "fadd (Num s) x = Num v" "0 \<le> v" "v \<le> 100 * real (Suc k)"
    using a(1) by auto
  have "\<exists>t. fold (\<lambda>x s. fadd s x) xs (Num v) = Num t \<and> 0 \<le> t
            \<and> t \<le> 100 * real (Suc k + length xs)"
    using Cons.prems(1,4) v(2,3) by (intro Cons.IH) simp_all
  then show ?case using v(1) by simp
qed

lemma rnd_100: "rnd 100 = 100"
  using rnd_of_int [of 100] by simp

lemma fmean_bound:
  assumes "xs \<noteq> []" "\<forall>v \<in> set xs. in_range v" "length xs \<le> 2 ^ 46"
  shows "in_range (fmean fsum xs)"
proof -
  from fold_fadd_bound [of xs 0 0] assms(2,3)
  obtain t where t: "fsum xs = Num t" "0 \<le> t" "t \<le> 100 * real (length xs)"
    by (auto simp: fsum_def)
  have "int (length xs) \<le> 2 ^ 46" using assms(3) by simp
  then have "\<bar>int (length xs)\<bar> \<le> 2 ^ 53" by simp
  from fl_of_int [OF this] have l: "fl (real (length xs)) = Num (real (length xs))"
    by simp
  have n: "0 < real (length xs)" using assms(1) by simp
  have "0 \<le> t / real (length xs)" "t / real (length xs) \<le> 100"
    using t(2,3) n by (simp_all add: pos_divide_le_eq)
  from fl_bounded_by [OF this rnd_100] obtain v where
    "fl (t / real (length xs)) = Num v" "0 \<le> v" "v \<le> 100" by auto
  then show ?thesis by (simp add: fmean_def t(1) l)
qed

lemma fmul_w4_bound:
  assumes "in_range m"
  shows "\<exists>v. fmul m (fl (2 / 5)) = Num v \<and> 0 \<le> v \<and> v \<le> 40 \<and> fadd (Num 0) (Num v) = Num v"
proof -
  have z: "fmul m (fl (2 / 5)) = Num v \<Longrightarrow> fadd (Num 0) (Num v) = Num v" for v
    using fadd_zero_left [OF is_double_fmul, of m "fl (2 / 5)"] by simp
  from assms obtain a where a: "m = Num a" "0 \<le> a" "a \<le> 100" by (cases m) auto
  have r: "rnd (100 * (3602879701896397 / 9007199254740992)) = 40"
    using rnd_eval [of 5 "100 * (3602879701896397 / 9007199254740992)"]
    by (simp add: pow2_def round_half_even_def)
  have "\<exists>v. fl (a * (3602879701896397 / 9007199254740992)) = Num v \<and> 0 \<le> v \<and> v \<le> 40"
    using a(2,3) by (intro fl_bounded_by [OF _ _ r]) simp_all
  then show ?thesis using z by (auto simp: a(1) w4)
qed

lemma fmul_w3_bound:
  assumes "in_range m"
  shows "\<exists>v. fmul m (fl (3 / 10)) = Num v \<and> 0 \<le> v \<and> v \<le> 30 \<and> fadd (Num 0) (Num v) = Num v"
proof -
  have z: "fmul m (fl (3 / 10)) = Num v \<Longrightarrow> fadd (Num 0) (Num v) = Num v" for v
    using fadd_zero_left [OF is_double_fmul, of m "fl (3 / 10)"] by simp
  from assms obtain a where a: "m = Num a" "0 \<le> a" "a \<le> 100" by (cases m) auto
  have r: "rnd (100 * (5404319552844595 / 18014398509481984)) = 30"
    using rnd_eval [of 4 "100 * (5404319552844595 / 18014398509481984)"]
    by (simp add: pow2_def round_half_even_def)
  have "\<exists>v. fl (a * (5404319552844595 / 18014398509481984)) = Num v \<and> 0 \<le> v \<and> v \<le> 30"
    using a(2,3) by (intro fl_bounded_by [OF _ _ r]) simp_all
  then show ?thesis using z by (auto simp: a(1) w3)
qed

lemma fadd_bound:
  assumes "0 \<le> a" "a \<le> A" "0 \<le> b" "b \<le> B" "rnd (A + B) = C" "C \<le> 2 ^ 53"
  shows "\<exists>v. fadd (Num a) (Num b) = Num v \<and> 0 \<le> v \<and> v \<le> C"
  using assms by (simp, intro fl_bounded_by [of _ "A + B"]) simp_all

lemma fround2_bound:
  assumes "0 \<le> q" "q \<le> 100"
  shows "in_range (fround2 (Num q))"
proof -
  have "of_int 0 \<le> q * 10 ^ 2" using assms by simp
  then have lo: "0 \<le> round_half_even (q * 10 ^ 2)" by (rule round_half_even_ge)
  have "q * 10 ^ 2 \<le> of_int 10000" using assms by simp
  then have hi: "round_half_even (q * 10 ^ 2) \<le> 10000" by (rule round_half_even_le)
  have "(of_int (round_half_even (q * 10 ^ 2)) :: real) \<le> of_int 10000"
    using hi by (simp only: of_int_le_iff)
  moreover have "(of_int 0 :: real) \<le> of_int (round_half_even (q * 10 ^ 2))"
    using lo by (simp only: of_int_le_iff)
  ultimately have "0 \<le> real_of_int (round_half_even (q * 10 ^ 2)) / 10 ^ 2"
    "real_of_int (round_half_even (q * 10 ^ 2)) / 10 ^ 2 \<le> 100"
    by simp_all
  from fl_bounded_by [OF this rnd_100] show ?thesis by auto
qed

lemma quotient_bound:
  assumes "0 \<le> t" "t \<le> T" "0 < w" "rnd (T / w) = 100"
  shows "in_range (fround2 (if flt (Num 0) (Num w) then fdiv (Num t) (Num w) else Num 50))"
proof -
  have "0 \<le> t / w" "t / w \<le> T / w"
    using assms(1,2,3) by (simp_all add: divide_right_mono)
  from fl_bounded_by [OF this assms(4)] obtain q where
    "fl (t / w) = Num q" "0 \<le> q" "q \<le> 100" by auto
  then show ?thesis
    using assms(3) fround2_bound [of q] by (simp del: fround2.simps)
qed

lemma tw_43: "fadd (fl (2 / 5)) (fl (3 / 10)) = Num (3152519739159347 / 4503599627370496)"
proof -
  have "rnd (3602879701896397 / 9007199254740992 + 5404319552844595 / 18014398509481984)
          = 3152519739159347 / 4503599627370496"
    using rnd_eval [of "- 1" "3602879701896397 / 9007199254740992 + 5404319552844595 / 18014398509481984"]
    by (simp add: pow2_def round_half_even_def)
  then show ?thesis using max_double_ge by (simp add: w3 w4 fl_Num)
qed

lemma tw_33: "fadd (fl (3 / 10)) (fl (3 / 10)) = Num (5404319552844595 / 9007199254740992)"
proof -
  have "rnd (5404319552844595 / 18014398509481984 + 5404319552844595 / 18014398509481984)
          = 5404319552844595 / 9007199254740992"
    using rnd_eval [of "- 1" "5404319552844595 / 18014398509481984 + 5404319552844595 / 18014398509481984"]
    by (simp add: pow2_def round_half_even_def)
  then show ?thesis using max_double_ge by (simp add: w3 fl_Num)
qed

lemma tw_433: "fadd (Num (3152519739159347 / 4503599627370496)) (fl (3 / 10)) = Num 1"
proof -
  have "rnd (3152519739159347 / 4503599627370496 + 5404319552844595 / 18014398509481984) = 1"
    using rnd_eval [of "- 1" "3152519739159347 / 4503599627370496 + 5404319552844595 / 18014398509481984"]
    by (simp add: pow2_def round_half_even_def)
  then show ?thesis using max_double_ge by (simp add: w3 fl_Num)
qed

lemma q_4: "rnd (40 / (3602879701896397 / 9007199254740992)) = 100"
  using rnd_eval [of 6 "40 / (3602879701896397 / 9007199254740992)"]
  by (simp add: pow2_def round_half_even_def)

lemma q_3: "rnd (30 / (5404319552844595 / 18014398509481984)) = 100"
  using rnd_eval [of 6 "30 / (5404319552844595 / 18014398509481984)"]
  by (simp add: pow2_def round_half_even_def)

lemma q_43: "rnd (70 / (3152519739159347 / 4503599627370496)) = 100"
  using rnd_eval [of 6 "70 / (3152519739159347 / 4503599627370496)"]
  by (simp add: pow2_def round_half_even_def)

lemma q_33: "rnd (60 / (5404319552844595 / 9007199254740992)) = 100"
  using rnd_eval [of 6 "60 / (5404319552844595 / 9007199254740992)"]
  by (simp add: pow2_def round_half_even_def)

lemma rnd_small_ints: "rnd 70 = 70" "rnd 60 = 60" "rnd 100 = 100"
  using rnd_of_int [of 70] rnd_of_int [of 60] rnd_of_int [of 100] by simp_all

text \<open>The weighted average of category means that lie in [0,100].\<close>

lemma weighted_f64_bound:
  assumes "cs Environmental \<noteq> [] \<longrightarrow> in_range (fmean py_sum (cs Environmental))"
    and "cs Social \<noteq> [] \<longrightarrow> in_range (fmean py_sum (cs Social))"
    and "cs Governance \<noteq> [] \<longrightarrow> in_range (fmean py_sum (cs Governance))"
  shows "in_range (let totals = fold (weight_step_f64 py_sum cs) weights_f64 (Num 0, Num 0)
           in fround2 (if flt (Num 0) (snd totals) then fdiv (fst totals) (snd totals) else Num 50))"
proof -
  have z: "fadd (Num 0) (fl x) = fl x" for x
    by (simp add: fadd_zero_left)
  have m: "fadd (Num 0) (fmul x y) = fmul x y" for x y
    by (simp add: fadd_zero_left)
  have f50: "in_range (fround2 (Num 50))"
    by (simp add: fround2_50 del: fround2.simps)
  show ?thesis
  proof (cases "cs Environmental = []")
    case e: True
    show ?thesis
    proof (cases "cs Social = []")
      case s: True
      show ?thesis
      proof (cases "cs Governance = []")
        case g: True
        show ?thesis
          using e s g f50 by (simp add: totals_f64_explicit del: fround2.simps)
      next
        case g: False
        from fmul_w3_bound assms(3) g obtain v where
          v: "fmul (fmean py_sum (cs Governance)) (fl (3 / 10)) = Num v" "0 \<le> v" "v \<le> 30"
          "fadd (Num 0) (Num v) = Num v" by blast
        from quotient_bound [OF v(2,3) _ q_3] show ?thesis
          using e s g v(1,4)
          by (simp add: totals_f64_explicit Let_def z del: fround2.simps fadd.simps)
            (simp add: w3 del: fround2.simps)
      qed
    next
      case s: False
      from fmul_w3_bound assms(2) s obtain v2 where
        v2: "fmul (fmean py_sum (cs Social)) (fl (3 / 10)) = Num v2" "0 \<le> v2" "v2 \<le> 30"
          "fadd (Num 0) (Num v2) = Num v2" by blast
      show ?thesis
      proof (cases "cs Governance = []")
        case g: True
        from quotient_bound [OF v2(2,3) _ q_3] show ?thesis
          using e s g v2(1,4)
          by (simp add: totals_f64_explicit Let_def z del: fround2.simps fadd.simps)
            (simp add: w3 del: fround2.simps)
      next
        case g: False
        from fmul_w3_bound assms(3) g obtain v3 where
          v3: "fmul (fmean py_sum (cs Governance)) (fl (3 / 10)) = Num v3" "0 \<le> v3" "v3 \<le> 30"
          "fadd (Num 0) (Num v3) = Num v3" by blast
        from fadd_bound [OF v2(2,3) v3(2,3), of 60] obtain t where
          t: "fadd (Num v2) (Num v3) = Num t" "0 \<le> t" "t \<le> 60"
          using rnd_small_ints by auto
        from quotient_bound [OF t(2,3) _ q_33] show ?thesis
          using e s g v2(1,4) v3(1) t(1)
          by (simp add: totals_f64_explicit Let_def z tw_33 del: fround2.simps fadd.simps)
      qed
    qed
  next
    case e: False
    from fmul_w4_bound assms(1) e obtain v1 where
      v1: "fmul (fmean py_sum (cs Environmental)) (fl (2 / 5)) = Num v1" "0 \<le> v1" "v1 \<le> 40"
          "fadd (Num 0) (Num v1) = Num v1" by blast
    show ?thesis
    proof (cases "cs Social = []")
      case s: True
      show ?thesis
      proof (cases "cs Governance = []")
        case g: True
        from quotient_bound [OF v1(2,3) _ q_4] show ?thesis
          using e s g v1(1,4)
          by (simp add: totals_f64_explicit Let_def z del: fround2.simps fadd.simps)
            (simp add: w4 del: fround2.simps)
      next
        case g: False
        from fmul_w3_bound assms(3) g obtain v3 where
          v3: "fmul (fmean py_sum (cs Governance)) (fl (3 / 10)) = Num v3" "0 \<le> v3" "v3 \<le> 30"
          "fadd (Num 0) (Num v3) = Num v3" by blast
        from fadd_bound [OF v1(2,3) v3(2,3), of 70] obtain t where
          t: "fadd (Num v1) (Num v3) = Num t" "0 \<le> t" "t \<le> 70"
          using rnd_small_ints by auto
        from quotient_bound [OF t(2,3) _ q_43] show ?thesis
          using e s g v1(1,4) v3(1) t(1)
          by (simp add: totals_f64_explicit Let_def z tw_43 del: fround2.simps fadd.simps)
      qed
    next
      case s: False
      from fmul_w3_bound assms(2) s obtain v2 where
        v2: "fmul (fmean py_sum (cs Social)) (fl (3 / 10)) = Num v2" "0 \<le> v2" "v2 \<le> 30"
          "fadd (Num 0) (Num v2) = Num v2" by blast
      from fadd_bound [OF v1(2,3) v2(2,3), of 70] obtain t where
        t: "fadd (Num v1) (Num v2) = Num t" "0 \<le> t" "t \<le> 70"
        using rnd_small_ints by auto
      show ?thesis
      proof (cases "cs Governance = []")
        case g: True
        from quotient_bound [OF t(2,3) _ q_43] show ?thesis
          using e s g v1(1,4) v2(1) t(1)
          by (simp add: totals_f64_explicit Let_def z tw_43 del: fround2.simps fadd.simps)
      next
        case g: False
        from fmul_w3_bound assms(3) g obtain v3 where
          v3: "fmul (fmean py_sum (cs Governance)) (fl (3 / 10)) = Num v3" "0 \<le> v3" "v3 \<le> 30"
          "fadd (Num 0) (Num v3) = Num v3" by blast
        from fadd_bound [OF t(2,3) v3(2,3), of 100] obtain u where
          u: "fadd (Num t) (Num v3) = Num u" "0 \<le> u" "u \<le> 100"
          using rnd_small_ints by auto
        from quotient_bound [OF u(2,3), of 1] show ?thesis
          using e s g v1(1,4) v2(1) v3(1) t(1) u(1) rnd_small_ints
          by (simp add: totals_f64_explicit Let_def z tw_43 tw_433 del: fround2.simps fadd.simps)
      qed
    qed
  qed
qed

lemma score_f64_range:
  assumes "\<forall>c. collect_category_scores_f64 (query_kpis db lid) c \<noteq> [] \<longrightarrow>
             in_range (fmean py_sum (collect_category_scores_f64 (query_kpis db lid) c))"
  shows "in_range (calculate_esg_performance_score_f64 py_sum db lid)"
proof -
  let ?cs = "collect_category_scores_f64 (query_kpis db lid)"
  have r: "?cs c \<noteq> [] \<longrightarrow> in_range (fmean py_sum (?cs c))" for c
    using assms by simp
  from weighted_f64_bound [of ?cs py_sum, OF r r r] show ?thesis
    by (simp add: score_f64_explicit del: fround2.simps)
qed

text \<open>
  With the left-to-right sum, the mean of a category is in [0,100] when none of its
  achievements is NaN and there are at most \<open>2^46\<close> of them.
\<close>

lemma fsum_means_in_range:
  assumes "\<forall>c. NaN \<notin> set (collect_category_scores_f64 (query_kpis db lid) c)"
    and "length (query_kpis db lid) \<le> 2 ^ 46"
  shows "collect_category_scores_f64 (query_kpis db lid) c \<noteq> [] \<longrightarrow>
           in_range (fmean fsum (collect_category_scores_f64 (query_kpis db lid) c))"
proof
  let ?cs = "collect_category_scores_f64 (query_kpis db lid)"
  assume ne: "?cs c \<noteq> []"
  have "\<forall>v \<in> set (?cs c). in_range v"
    using collect_f64_values [of _ "query_kpis db lid" c] assms(1) by blast
  moreover have "length (?cs c) \<le> 2 ^ 46"
    using collect_f64_length [of "query_kpis db lid" c] assms(2) by linarith
  ultimately show "in_range (fmean fsum (?cs c))"
    using ne by (intro fmean_bound) simp_all
qed

lemma fl_small_ints: "fl 1 = Num 1" "fl 3 = Num 3" "fl 31 = Num 31" "fl 800 = Num 800"
  using fl_of_int [of 1] fl_of_int [of 3] fl_of_int [of 31] fl_of_int [of 800] by simp_all

lemma fl_double: "is_double (Num a) \<Longrightarrow> fl a = Num a"
  by (simp add: is_double_def fl_Num)

text \<open>One governance KPI with baseline 1, current 2, target 4.\<close>

lemma third_q: "fdiv (Num 1) (Num 3) = Num (6004799503160661 / 18014398509481984)"
proof -
  have "rnd (1 / 3) = 6004799503160661 / 18014398509481984"
    using rnd_eval [of "- 2" "1 / 3"] by (simp add: pow2_def round_half_even_def)
  then show ?thesis using max_double_ge by (simp add: fl_Num)
qed

lemma third_a:
  "fmul (Num (6004799503160661 / 18014398509481984)) (Num 100)
     = Num (2345624805922133 / 70368744177664)"
proof -
  have "rnd (6004799503160661 / 18014398509481984 * 100) = 2345624805922133 / 70368744177664"
    using rnd_eval [of 5 "6004799503160661 / 18014398509481984 * 100"]
    by (simp add: pow2_def round_half_even_def)
  then show ?thesis using max_double_ge by (simp add: fl_Num)
qed

lemma third_double: "is_double (Num (2345624805922133 / 70368744177664))"
  using is_double_fmul [of "Num (6004799503160661 / 18014398509481984)" "Num 100"]
  by (simp only: third_a)

lemma third_achievement:
  "kpi_achievement_f64 sample_kpi = Some (Num (2345624805922133 / 70368744177664))"
proof -
  have d: "fsub (Num 4) (Num 1) = Num 3" "fsub (Num 2) (Num 1) = Num 1"
    by (simp_all add: fsub_def fl_small_ints)
  show ?thesis
    by (simp add: kpi_achievement_f64_def sample_kpi_def truthy_def d third_q third_a fmin_def
        del: fdiv.simps fmul.simps)
qed

lemma third_collect:
  "collect_category_scores_f64 (query_kpis (empty_db\<lparr>esg_kpis := [sample_kpi]\<rparr>) 1)
     = (\<lambda>c. [])(Governance := [Num (2345624805922133 / 70368744177664)])"
  using third_achievement
  by (simp add: query_kpis_def empty_db_def collect_category_scores_f64_def score_step_f64_def
      kpi_category_name_def lower_governance category_key_def sample_kpi_def)

lemma third_mean:
  "fmean fsum [Num (2345624805922133 / 70368744177664)] = Num (2345624805922133 / 70368744177664)"
  using fl_double [OF third_double] by (simp add: fmean_def fsum_def fl_small_ints)

lemma third_m:
  "fmul (Num (2345624805922133 / 70368744177664)) (Num (5404319552844595 / 18014398509481984))
     = Num (5629499534213119 / 562949953421312)"
proof -
  have "rnd (2345624805922133 / 70368744177664 * (5404319552844595 / 18014398509481984))
          = 5629499534213119 / 562949953421312"
    using rnd_eval [of 3 "2345624805922133 / 70368744177664 * (5404319552844595 / 18014398509481984)"]
    by (simp add: pow2_def round_half_even_def)
  then show ?thesis using max_double_ge by (simp add: fl_Num)
qed

lemma third_d:
  "fdiv (Num (5629499534213119 / 562949953421312)) (Num (5404319552844595 / 18014398509481984))
     = Num (2345624805922133 / 70368744177664)"
proof -
  have "rnd (5629499534213119 / 562949953421312 / (5404319552844595 / 18014398509481984))
          = 2345624805922133 / 70368744177664"
    using rnd_eval [of 5 "5629499534213119 / 562949953421312 / (5404319552844595 / 18014398509481984)"]
    by (simp add: pow2_def round_half_even_def)
  then show ?thesis using max_double_ge by (simp add: fl_Num)
qed

lemma third_r:
  "fround2 (Num (2345624805922133 / 70368744177664)) = Num (2345390243441541 / 70368744177664)"
proof -
  have "rnd (3333 / 100) = 2345390243441541 / 70368744177664"
    using rnd_eval [of 5 "3333 / 100"] by (simp add: pow2_def round_half_even_def)
  then show ?thesis using max_double_ge by (simp add: fl_Num round_half_even_def)
qed

lemma third_score:
  "calculate_esg_performance_score_f64 fsum (empty_db\<lparr>esg_kpis := [sample_kpi]\<rparr>) 1
     = Num (2345390243441541 / 70368744177664)"
proof -
  have "calculate_esg_performance_score_f64 fsum (empty_db\<lparr>esg_kpis := [sample_kpi]\<rparr>) 1
     = fround2 (fdiv (fmul (fmean fsum (collect_category_scores_f64
          (query_kpis (empty_db\<lparr>esg_kpis := [sample_kpi]\<rparr>) 1) Governance)) (fl (3 / 10))) (fl (3 / 10)))"
    by (rule score_f64_single) (simp_all add: third_collect weights_f64_def)
  also have "\<dots> = Num (2345390243441541 / 70368744177664)"
    by (simp add: third_collect third_mean w3 third_m third_d third_r
        del: fround2.simps fmul.simps fdiv.simps)
  finally show ?thesis .
qed

text \<open>One governance KPI with baseline 100, current 131, target 900: achievement 3.875.\<close>

lemma eighth_q: "fdiv (Num 31) (Num 800) = Num (5584463537939415 / 144115188075855872)"
proof -
  have "rnd (31 / 800) = 5584463537939415 / 144115188075855872"
    using rnd_eval [of "- 5" "31 / 800"] by (simp add: pow2_def round_half_even_def)
  then show ?thesis using max_double_ge by (simp add: fl_Num)
qed

lemma eighth_a: "fmul (Num (5584463537939415 / 144115188075855872)) (Num 100) = Num (31 / 8)"
proof -
  have "rnd (5584463537939415 / 144115188075855872 * 100) = 31 / 8"
    using rnd_eval [of 1 "5584463537939415 / 144115188075855872 * 100"]
    by (simp add: pow2_def round_half_even_def)
  then show ?thesis using max_double_ge by (simp add: fl_Num)
qed

lemma eighth_double: "is_double (Num (31 / 8))"
  using is_double_fmul [of "Num (5584463537939415 / 144115188075855872)" "Num 100"]
  by (simp only: eighth_a)

lemma eighth_achievement:
  "kpi_achievement_f64 (sample_kpi\<lparr>baseline_value := Some 100, current_value := Some 131,
      target_value := Some 900\<rparr>) = Some (Num (31 / 8))"
proof -
  have d: "fsub (Num 900) (Num 100) = Num 800" "fsub (Num 131) (Num 100) = Num 31"
    by (simp_all add: fsub_def fl_small_ints)
  show ?thesis
    by (simp add: kpi_achievement_f64_def sample_kpi_def truthy_def d eighth_q eighth_a fmin_def
        del: fdiv.simps fmul.simps)
qed

lemma eighth_collect:
  "collect_category_scores_f64
     (query_kpis (empty_db\<lparr>esg_kpis := [sample_kpi\<lparr>baseline_value := Some 100,
        current_value := Some 131, target_value := Some 900\<rparr>]\<rparr>) 1)
     = (\<lambda>c. [])(Governance := [Num (31 / 8)])"
  using eighth_achievement
  by (simp add: query_kpis_def empty_db_def collect_category_scores_f64_def score_step_f64_def
      kpi_category_name_def lower_governance category_key_def sample_kpi_def)

lemma eighth_mean: "fmean fsum [Num (31 / 8)] = Num (31 / 8)"
  using fl_double [OF eighth_double] by (simp add: fmean_def fsum_def fl_small_ints)

lemma eighth_m:
  "fmul (Num (31 / 8)) (Num (5404319552844595 / 18014398509481984))
     = Num (5235434566818201 / 4503599627370496)"
proof -
  have "rnd (31 / 8 * (5404319552844595 / 18014398509481984))
          = 5235434566818201 / 4503599627370496"
    using rnd_eval [of 0 "31 / 8 * (5404319552844595 / 18014398509481984)"]
    by (simp add: pow2_def round_half_even_def)
  then show ?thesis using max_double_ge by (simp add: fl_Num)
qed

lemma eighth_d:
  "fdiv (Num (5235434566818201 / 4503599627370496)) (Num (5404319552844595 / 18014398509481984))
     = Num (8725724278030335 / 2251799813685248)"
proof -
  have "rnd (5235434566818201 / 4503599627370496 / (5404319552844595 / 18014398509481984))
          = 8725724278030335 / 2251799813685248"
    using rnd_eval [of 1 "5235434566818201 / 4503599627370496 / (5404319552844595 / 18014398509481984)"]
    by (simp add: pow2_def round_half_even_def)
  then show ?thesis using max_double_ge by (simp add: fl_Num)
qed

lemma eighth_r:
  "fround2 (Num (8725724278030335 / 2251799813685248)) = Num (4357232639480955 / 1125899906842624)"
proof -
  have "rnd (387 / 100) = 4357232639480955 / 1125899906842624"
    using rnd_eval [of 1 "387 / 100"] by (simp add: pow2_def round_half_even_def)
  then show ?thesis using max_double_ge by (simp add: fl_Num round_half_even_def)
qed

lemma eighth_round_mean:
  "fround2 (Num (31 / 8)) = Num (4368491638549381 / 1125899906842624)"
proof -
  have "rnd (388 / 100) = 4368491638549381 / 1125899906842624"
    using rnd_eval [of 1 "388 / 100"] by (simp add: pow2_def round_half_even_def)
  then show ?thesis using max_double_ge by (simp add: fl_Num round_half_even_def)
qed

text \<open>
  The renormalisation is not exact: for the mean 3.875 the function returns 3.87, where
  rounding the mean itself to two places gives 3.88.
\<close>

lemma score_f64_not_rounded_mean:
  "calculate_esg_performance_score_f64 fsum
     (empty_db\<lparr>esg_kpis := [sample_kpi\<lparr>baseline_value := Some 100, current_value := Some 131,
        target_value := Some 900\<rparr>]\<rparr>) 1 = Num (4357232639480955 / 1125899906842624) \<and>
   fround2 (fmean fsum [Num (31 / 8)]) = Num (4368491638549381 / 1125899906842624)"
proof -
  let ?db = "empty_db\<lparr>esg_kpis := [sample_kpi\<lparr>baseline_value := Some 100,
        current_value := Some 131, target_value := Some 900\<rparr>]\<rparr>"
  have "calculate_esg_performance_score_f64 fsum ?db 1
     = fround2 (fdiv (fmul (fmean fsum (collect_category_scores_f64 (query_kpis ?db 1) Governance))
         (fl (3 / 10))) (fl (3 / 10)))"
    by (rule score_f64_single) (simp_all add: eighth_collect weights_f64_def)
  also have "\<dots> = Num (4357232639480955 / 1125899906842624)"
    by (simp add: eighth_collect eighth_mean w3 eighth_m eighth_d eighth_r
        del: fround2.simps fmul.simps fdiv.simps)
  finally show ?thesis
    by (simp add: eighth_mean eighth_round_mean del: fround2.simps)
qed

text \<open>
  One governance KPI with baseline \<open>-two_pow_1023\<close> and current and target \<open>two_pow_1023\<close>: both
  differences overflow, the achievement is NaN, and so is the score.
\<close>

lemma overflow_diff: "fsub (Num two_pow_1023) (Num (- two_pow_1023)) = PInf"
proof -
  have "rnd (of_int 1 * pow2 1024) = of_int 1 * pow2 1024"
    by (rule rnd_exact [of _ 1 1024]) simp_all
  moreover have "pow2 1024 = two_pow_1023 + two_pow_1023"
    by (simp add: pow2_def two_pow_1023_def)
  ultimately have "rnd (two_pow_1023 + two_pow_1023) = two_pow_1023 + two_pow_1023"
    by simp
  then show ?thesis
    by (simp add: fsub_def fl_def Let_def max_double_def two_pow_1023_def)
qed

lemma two_pow_1023_neq_0 [simp]: "two_pow_1023 \<noteq> 0"
  by (simp add: two_pow_1023_def)

lemma overflow_achievement:
  "kpi_achievement_f64 (sample_kpi\<lparr>baseline_value := Some (- two_pow_1023),
      current_value := Some two_pow_1023, target_value := Some two_pow_1023\<rparr>) = Some NaN"
  by (simp add: kpi_achievement_f64_def sample_kpi_def truthy_def overflow_diff fmin_def)

lemma overflow_score:
  "calculate_esg_performance_score_f64 fsum
     (empty_db\<lparr>esg_kpis := [sample_kpi\<lparr>baseline_value := Some (- two_pow_1023),
        current_value := Some two_pow_1023, target_value := Some two_pow_1023\<rparr>]\<rparr>) 1 = NaN"
proof -
  let ?db = "empty_db\<lparr>esg_kpis := [sample_kpi\<lparr>baseline_value := Some (- two_pow_1023),
        current_value := Some two_pow_1023, target_value := Some two_pow_1023\<rparr>]\<rparr>"
  have c: "collect_category_scores_f64 (query_kpis ?db 1) = (\<lambda>c. [])(Governance := [NaN])"
    using overflow_achievement
    by (simp add: query_kpis_def empty_db_def collect_category_scores_f64_def score_step_f64_def
        kpi_category_name_def lower_governance category_key_def sample_kpi_def)
  have "calculate_esg_performance_score_f64 fsum ?db 1
     = fround2 (fdiv (fmul (fmean fsum (collect_category_scores_f64 (query_kpis ?db 1) Governance))
         (fl (3 / 10))) (fl (3 / 10)))"
    by (rule score_f64_single) (simp_all add: c weights_f64_def)
  also have "\<dots> = NaN"
    by (simp add: c fmean_def fsum_def)
  finally show ?thesis .
qed

text \<open>
  The truthiness test is the same in double precision: the KPI with baseline 10, target 5 and
  current 0 has no achievement there either, and the score is the default.
\<close>

lemma kpi_achievement_f64_zero_current:
  "kpi_achievement_f64 (sample_kpi\<lparr>kpi_category := Some ''environmental'',
      baseline_value := Some 10, current_value := Some 0, target_value := Some 5\<rparr>) = None \<and>
   calculate_esg_performance_score_f64 py_sum
     (empty_db\<lparr>esg_kpis := [sample_kpi\<lparr>kpi_category := Some ''environmental'',
        baseline_value := Some 10, current_value := Some 0, target_value := Some 5\<rparr>]\<rparr>) 1 = Num 50"
proof -
  let ?k = "sample_kpi\<lparr>kpi_category := Some ''environmental'',
      baseline_value := Some 10, current_value := Some 0, target_value := Some 5\<rparr>"
  have a: "kpi_achievement_f64 ?k = None"
    by (simp add: kpi_achievement_f64_def truthy_def sample_kpi_def)
  have "\<forall>c. collect_category_scores_f64 (query_kpis (empty_db\<lparr>esg_kpis := [?k]\<rparr>) 1) c = []"
    using a by (simp add: query_kpis_def empty_db_def collect_category_scores_f64_def
        score_step_f64_def)
  then have "calculate_esg_performance_score_f64 py_sum (empty_db\<lparr>esg_kpis := [?k]\<rparr>) 1 = Num 50"
    by (rule score_f64_none)
  then show ?thesis using a by simp
qed

text \<open>
  C5, as stated: the score lies in [0,100] for every KPI set, and equals the category's
  arithmetic mean when only one category contributes. Neither holds. One governance KPI with
  baseline 1, current 2, target 4 has achievement 33.33333333333333, the only contribution and
  so the mean, and the score is 33.33; one governance KPI whose differences overflow gives
  the score NaN.
\<close>

theorem performance_score_not_mean_nor_bounded:
  "collect_category_scores_f64 (query_kpis (empty_db\<lparr>esg_kpis := [sample_kpi]\<rparr>) 1) Environmental = [] \<and>
   collect_category_scores_f64 (query_kpis (empty_db\<lparr>esg_kpis := [sample_kpi]\<rparr>) 1) Social = [] \<and>
   collect_category_scores_f64 (query_kpis (empty_db\<lparr>esg_kpis := [sample_kpi]\<rparr>) 1) Governance
     = [Num (2345624805922133 / 70368744177664)] \<and>
   fmean fsum [Num (2345624805922133 / 70368744177664)] = Num (2345624805922133 / 70368744177664) \<and>
   calculate_esg_performance_score_f64 fsum (empty_db\<lparr>esg_kpis := [sample_kpi]\<rparr>) 1
     = Num (2345390243441541 / 70368744177664) \<and>
   calculate_esg_performance_score_f64 fsum (empty_db\<lparr>esg_kpis := [sample_kpi]\<rparr>) 1
     \<noteq> fmean fsum [Num (2345624805922133 / 70368744177664)] \<and>
   calculate_esg_performance_score_f64 fsum
     (empty_db\<lparr>esg_kpis := [sample_kpi\<lparr>baseline_value := Some (- two_pow_1023),
        current_value := Some two_pow_1023, target_value := Some two_pow_1023\<rparr>]\<rparr>) 1 = NaN"
  by (simp add: third_collect third_mean third_score overflow_score)

text \<open>
  C5, amended. When no KPI contributes anything, \<open>calculate_esg_performance_score\<close> returns
  50.0. When only one category contributes, with mean \<open>avg\<close> of its achievements and weight
  \<open>w\<close>, the weights are applied to that category alone and renormalised by the weight used:
  the result is \<open>round(avg \<times> w / w, 2)\<close> in double arithmetic, that is the mean up to the
  roundings of the product, of the quotient and of the two decimals, and not the mean itself.
  The result lies in [0,100] whenever the mean of every contributing category does; with the
  left-to-right sum, it does whenever no achievement is NaN and the loan has at most \<open>2^46\<close>
  KPIs.
\<close>

theorem performance_score_f64_properties:
  "((\<forall>c. collect_category_scores_f64 (query_kpis db lid) c = []) \<longrightarrow>
      calculate_esg_performance_score_f64 py_sum db lid = Num 50) \<and>
   (\<forall>c w. collect_category_scores_f64 (query_kpis db lid) c \<noteq> [] \<and>
        (\<forall>c'. c' \<noteq> c \<longrightarrow> collect_category_scores_f64 (query_kpis db lid) c' = []) \<and>
        map_of weights_f64 c = Some w \<longrightarrow>
      calculate_esg_performance_score_f64 py_sum db lid
        = fround2 (fdiv (fmul (fmean py_sum (collect_category_scores_f64 (query_kpis db lid) c)) w) w)) \<and>
   ((\<forall>c. collect_category_scores_f64 (query_kpis db lid) c \<noteq> [] \<longrightarrow>
         in_range (fmean py_sum (collect_category_scores_f64 (query_kpis db lid) c))) \<longrightarrow>
      (\<exists>s. calculate_esg_performance_score_f64 py_sum db lid = Num s \<and> 0 \<le> s \<and> s \<le> 100)) \<and>
   ((\<forall>c. NaN \<notin> set (collect_category_scores_f64 (query_kpis db lid) c)) \<and>
    length (query_kpis db lid) \<le> 2 ^ 46 \<longrightarrow>
      (\<exists>s. calculate_esg_performance_score_f64 fsum db lid = Num s \<and> 0 \<le> s \<and> s \<le> 100))"
proof (intro conjI allI impI)
  assume "\<forall>c. collect_category_scores_f64 (query_kpis db lid) c = []"
  then show "calculate_esg_performance_score_f64 py_sum db lid = Num 50"
    by (rule score_f64_none)
next
  fix c w
  assume "collect_category_scores_f64 (query_kpis db lid) c \<noteq> [] \<and>
        (\<forall>c'. c' \<noteq> c \<longrightarrow> collect_category_scores_f64 (query_kpis db lid) c' = []) \<and>
        map_of weights_f64 c = Some w"
  then show "calculate_esg_performance_score_f64 py_sum db lid
        = fround2 (fdiv (fmul (fmean py_sum (collect_category_scores_f64 (query_kpis db lid) c)) w) w)"
    by (intro score_f64_single) simp_all
next
  assume "\<forall>c. collect_category_scores_f64 (query_kpis db lid) c \<noteq> [] \<longrightarrow>
         in_range (fmean py_sum (collect_category_scores_f64 (query_kpis db lid) c))"
  then have "in_range (calculate_esg_performance_score_f64 py_sum db lid)"
    by (rule score_f64_range)
  then show "\<exists>s. calculate_esg_performance_score_f64 py_sum db lid = Num s \<and> 0 \<le> s \<and> s \<le> 100"
    by (cases "calculate_esg_performance_score_f64 py_sum db lid") (simp_all add: in_range_def)
next
  assume h: "(\<forall>c. NaN \<notin> set (collect_category_scores_f64 (query_kpis db lid) c)) \<and>
    length (query_kpis db lid) \<le> 2 ^ 46"
  have "\<forall>c. collect_category_scores_f64 (query_kpis db lid) c \<noteq> [] \<longrightarrow>
         in_range (fmean fsum (collect_category_scores_f64 (query_kpis db lid) c))"
    using fsum_means_in_range [of db lid] h by blast
  then have "in_range (calculate_esg_performance_score_f64 fsum db lid)"
    by (rule score_f64_range)
  then show "\<exists>s. calculate_esg_performance_score_f64 fsum db lid = Num s \<and> 0 \<le> s \<and> s \<le> 100"
    by (cases "calculate_esg_performance_score_f64 fsum db lid") (simp_all add: in_range_def)
qed

theorem performance_score_f64_properties_witness:
  "collect_category_scores_f64 (query_kpis (empty_db\<lparr>esg_kpis := [sample_kpi]\<rparr>) 1) Environmental = [] \<and>
   collect_category_scores_f64 (query_kpis (empty_db\<lparr>esg_kpis := [sample_kpi]\<rparr>) 1) Social = [] \<and>
   collect_category_scores_f64 (query_kpis (empty_db\<lparr>esg_kpis := [sample_kpi]\<rparr>) 1) Governance
     = [Num (2345624805922133 / 70368744177664)] \<and>
   map_of weights_f64 Governance = Some (Num (5404319552844595 / 18014398509481984)) \<and>
   length (query_kpis (empty_db\<lparr>esg_kpis := [sample_kpi]\<rparr>) 1) = 1 \<and>
   in_range (fmean fsum [Num (2345624805922133 / 70368744177664)]) \<and>
   calculate_esg_performance_score_f64 fsum (empty_db\<lparr>esg_kpis := [sample_kpi]\<rparr>) 1
     = fround2 (fdiv (fmul (fmean fsum [Num (2345624805922133 / 70368744177664)])
         (Num (5404319552844595 / 18014398509481984))) (Num (5404319552844595 / 18014398509481984))) \<and>
   in_range (calculate_esg_performance_score_f64 fsum (empty_db\<lparr>esg_kpis := [sample_kpi]\<rparr>) 1) \<and>
   calculate_esg_performance_score_f64 fsum empty_db 1 = Num 50"
proof -
  let ?db = "empty_db\<lparr>esg_kpis := [sample_kpi]\<rparr>"
  have w: "map_of weights_f64 Governance = Some (Num (5404319552844595 / 18014398509481984))"
    by (simp add: weights_f64_def w3)
  have g: "collect_category_scores_f64 (query_kpis ?db 1) Governance \<noteq> [] \<and>
        (\<forall>c'. c' \<noteq> Governance \<longrightarrow> collect_category_scores_f64 (query_kpis ?db 1) c' = []) \<and>
        map_of weights_f64 Governance = Some (Num (5404319552844595 / 18014398509481984))"
    using w by (simp add: third_collect)
  have l: "length (query_kpis ?db 1) = 1"
    by (simp add: query_kpis_def empty_db_def sample_kpi_def)
  have m: "in_range (fmean fsum [Num (2345624805922133 / 70368744177664)])"
    by (simp add: third_mean in_range_def)
  have n: "(\<forall>c. NaN \<notin> set (collect_category_scores_f64 (query_kpis ?db 1) c)) \<and>
    length (query_kpis ?db 1) \<le> 2 ^ 46"
    by (simp add: third_collect l)
  have e: "\<forall>c. collect_category_scores_f64 (query_kpis empty_db 1) c = []"
    by (simp add: query_kpis_def empty_db_def collect_category_scores_f64_def)
  have s: "calculate_esg_performance_score_f64 fsum ?db 1
     = fround2 (fdiv (fmul (fmean fsum (collect_category_scores_f64 (query_kpis ?db 1) Governance))
         (Num (5404319552844595 / 18014398509481984))) (Num (5404319552844595 / 18014398509481984)))"
    using performance_score_f64_properties [of ?db 1 fsum] g by blast
  have k: "\<forall>c. collect_category_scores_f64 (query_kpis ?db 1) c \<noteq> [] \<longrightarrow>
         in_range (fmean fsum (collect_category_scores_f64 (query_kpis ?db 1) c))"
    using m by (simp add: third_collect)
  have r: "\<exists>s. calculate_esg_performance_score_f64 fsum ?db 1 = Num s \<and> 0 \<le> s \<and> s \<le> 100"
    using performance_score_f64_properties [of ?db 1 fsum] k by blast
  have r': "\<exists>s. calculate_esg_performance_score_f64 fsum ?db 1 = Num s \<and> 0 \<le> s \<and> s \<le> 100"
    using performance_score_f64_properties [of ?db 1 fsum] n by blast
  have z: "calculate_esg_performance_score_f64 fsum empty_db 1 = Num 50"
    using performance_score_f64_properties [of empty_db 1 fsum] e by blast
  from r have "in_range (calculate_esg_performance_score_f64 fsum ?db 1)"
    by (auto simp: in_range_def)
  then show ?thesis
    using s z w l m by (simp add: third_collect del: fround2.simps fmul.simps fdiv.simps)
qed

end
